theory Spec2Isabelle
  imports Complex_Main
begin

section \<open>JavaScript values\<close>

text \<open>
  The handlers work on loosely typed payloads: the result of \<^verbatim>\<open>JSON.parse\<close>, the
  request objects built from it and the gateway's responses. They are modelled as trees.
  An object is its list of own enumerable properties in insertion order; an array is an
  object whose kind records its \<^verbatim>\<open>length\<close> and whose properties are its indices, so
  that a hole left by \<^verbatim>\<open>delete\<close> is simply a missing index. Finite numbers are read as the
  rationals they denote; no arithmetic is done on them here.
\<close>

datatype objkind = Plain | Array nat

datatype jsval =
    JUndefined
  | JNull
  | JBool bool
  | JNum rat
  | JStr string
  | JObj objkind "(string \<times> jsval) list"

text \<open>\<^verbatim>\<open>typeof v === 'object'\<close> for a value that is not \<^verbatim>\<open>null\<close>.\<close>

fun isObject :: "jsval \<Rightarrow> bool" where
  "isObject (JObj k ps) = True"
| "isObject v = False"

text \<open>\<^verbatim>\<open>Object.keys(v)\<close> of an object or array.\<close>

fun objectKeys :: "jsval \<Rightarrow> string list" where
  "objectKeys (JObj k ps) = map fst ps"
| "objectKeys v = []"

section \<open>utils/response.utils.ts: removeEmptyProperties\<close>

text \<open>
  \<^verbatim>\<open>
  export const removeEmptyProperties = (response: any) => {
    for (const prop in response) {
      if (response[prop] === null) {
        delete response[prop];
      }
      if (typeof response[prop] === 'object') {
        removeEmptyProperties(response[prop]);
        if (Object.keys(response[prop]).length === 0) {
          delete response[prop];
        }
      }
    }
  };
  \<close>
  The source mutates its argument; the model returns the mutated value. The loop visits
  every property once (only the property being visited is ever deleted). After the first
  \<^verbatim>\<open>delete\<close> the property reads \<^verbatim>\<open>undefined\<close>, so the second test fails for it.
  \<^verbatim>\<open>for ... in\<close> over \<^verbatim>\<open>null\<close> or a primitive without enumerable properties
  does nothing.
\<close>

fun removeEmptyProperties :: "jsval \<Rightarrow> jsval"
  and removeProps :: "(string \<times> jsval) list \<Rightarrow> (string \<times> jsval) list" where
  "removeEmptyProperties (JObj k ps) = JObj k (removeProps ps)"
| "removeEmptyProperties JUndefined = JUndefined"
| "removeEmptyProperties JNull = JNull"
| "removeEmptyProperties (JBool b) = JBool b"
| "removeEmptyProperties (JNum n) = JNum n"
| "removeEmptyProperties (JStr s) = JStr s"
| "removeProps [] = []"
| "removeProps ((prop, v) # ps) =
     (if v = JNull then removeProps ps
      else if isObject v then
        (let v' = removeEmptyProperties v in
         if length (objectKeys v') = 0 then removeProps ps
         else (prop, v') # removeProps ps)
      else (prop, v) # removeProps ps)"


section \<open>Property access, truthiness, exceptions\<close>

text \<open>
  \<^verbatim>\<open>v.key\<close> on a value that is not \<^verbatim>\<open>null\<close> or \<^verbatim>\<open>undefined\<close>. The keys the
  handlers read are ordinary names (never \<^verbatim>\<open>length\<close> or an index), so a primitive
  has none of them.
\<close>

fun getProp :: "jsval \<Rightarrow> string \<Rightarrow> jsval" where
  "getProp (JObj k ps) key = (case map_of ps key of Some v \<Rightarrow> v | None \<Rightarrow> JUndefined)"
| "getProp v key = JUndefined"

fun nullish :: "jsval \<Rightarrow> bool" where
  "nullish JUndefined = True"
| "nullish JNull = True"
| "nullish v = False"

text \<open>Optional chaining \<^verbatim>\<open>v?.key\<close>.\<close>

definition optProp :: "jsval \<Rightarrow> string \<Rightarrow> jsval" where
  "optProp v key = (if nullish v then JUndefined else getProp v key)"

text \<open>The test \<^verbatim>\<open>if (v)\<close> and the operators \<^verbatim>\<open>!v\<close>, \<^verbatim>\<open>v || w\<close>.\<close>

fun truthy :: "jsval \<Rightarrow> bool" where
  "truthy JUndefined = False"
| "truthy JNull = False"
| "truthy (JBool b) = b"
| "truthy (JNum n) = (n \<noteq> 0)"
| "truthy (JStr s) = (s \<noteq> [])"
| "truthy (JObj k ps) = True"

text \<open>Writing a property: the value in place if the key exists, a new last property otherwise.\<close>

fun putProp :: "string \<Rightarrow> jsval \<Rightarrow> (string \<times> jsval) list \<Rightarrow> (string \<times> jsval) list" where
  "putProp key x [] = [(key, x)]"
| "putProp key x ((k, v) # ps) = (if k = key then (key, x) # ps else (k, v) # putProp key x ps)"

text \<open>
  Modelled from the spec: the class \<^verbatim>\<open>CustomError\<close> (errors/custom.error) is used but not
  defined in the sources at hand; it is taken to extend \<^verbatim>\<open>Error\<close> and to keep the status
  code and the message it is constructed with.

  What a handler can throw is then a \<^verbatim>\<open>CustomError(statusCode, message)\<close>, an error of
  the JavaScript engine or of the gateway SDK (an \<^verbatim>\<open>Error\<close> with a name and a message),
  or a value that is not an \<^verbatim>\<open>Error\<close>.
\<close>

datatype exn =
    CustomError int string
  | JsError string string
  | NonError jsval

text \<open>The calls of service/braintree.service, with their arguments.\<close>

datatype gateway_call =
    Refund jsval jsval
  | SubmitForSettlement jsval jsval
  | VoidTransaction jsval
  | TransactionSale jsval
  | GetClientToken jsval
  | FindCustomer jsval
  | CreateCustomer jsval
  | CreatePaymentMethod jsval

section \<open>Update actions and the commercetools resources\<close>

text \<open>
  The object literals pushed onto \<^verbatim>\<open>updateActions\<close>, one constructor per shape, fields in
  source order. \<open>SetField action transactionId name value\<close> is the literal whose
  \<^verbatim>\<open>action\<close> is \<^verbatim>\<open>'setTransactionCustomField'\<close> or \<^verbatim>\<open>'setCustomField'\<close>;
  \<open>AddInterfaceInteraction key type data timestamp\<close> and
  \<open>AddTransaction type centAmount currencyCode interactionId timestamp state\<close> flatten the
  nested literals. \<open>OtherAction\<close> is any action object of another shape.
\<close>

datatype update_action =
    SetField string "string option" string jsval
  | AddInterfaceInteraction string string jsval string
  | AddTransaction jsval jsval jsval jsval jsval jsval
  | SetStatusInterfaceCode jsval
  | SetStatusInterfaceText jsval
  | SetMethodInfoMethod string
  | SetInterfaceId jsval
  | OtherAction jsval

text \<open>
  The parts of the platform's resources that the handlers read. \<open>custom\<close> is
  \<^verbatim>\<open>custom.fields\<close> when \<^verbatim>\<open>custom\<close> is defined; the request fields are string fields.
\<close>

type_synonym fields = "string \<Rightarrow> string option"

record ct_money =
  centAmount :: int
  fractionDigits :: int
  currencyCode :: string

record ct_transaction =
  id_tx :: string
  type_tx :: string
  interactionId :: "string option"
  custom_tx :: "fields option"

record ct_payment =
  custom :: "fields option"
  amountPlanned :: "ct_money option"
  transactions :: "ct_transaction list"
  interfaceId :: "string option"

record payment_with_optional_transaction =
  payment :: "ct_payment option"
  transaction :: "ct_transaction option"

record ct_customer =
  id_cust :: string
  custom_cust :: "fields option"

record customer_reference =
  obj :: "ct_customer option"

text \<open>\<^verbatim>\<open>x?.custom?.fields[name]\<close>, and the truthiness of such a field.\<close>

definition field :: "fields option \<Rightarrow> string \<Rightarrow> string option" where
  "field c name = (case c of None \<Rightarrow> None | Some fs \<Rightarrow> fs name)"

definition populated :: "string option \<Rightarrow> bool" where
  "populated x = (case x of None \<Rightarrow> False | Some s \<Rightarrow> s \<noteq> [])"

definition optStr :: "string option \<Rightarrow> jsval" where
  "optStr x = (case x of None \<Rightarrow> JUndefined | Some s \<Rightarrow> JStr s)"

section \<open>The environment of the handlers\<close>

text \<open>
  Everything the handlers use that is not in the sources at hand is a parameter:
  the built-ins of the language (\<^verbatim>\<open>JSON.parse\<close>, with \<open>Inl\<close> the message of the
  \<^verbatim>\<open>SyntaxError\<close> it throws; \<^verbatim>\<open>JSON.stringify\<close>; the conversion to string of template
  literals and \<^verbatim>\<open>+\<close>; the messages of the engine's \<^verbatim>\<open>TypeError\<close>s; \<^verbatim>\<open>error.stack\<close>),
  the double arithmetic \<^verbatim>\<open>String(c * Math.pow(10, -f || 0))\<close> as \<open>amountString c f\<close>,
  the clock read by \<^verbatim>\<open>handleRequest\<close> and by the response handler, the process
  environment, the gateway (its answer may depend on the calls made before in the same
  invocation; \<open>Inl\<close> is a rejected promise), and the functions of utils/map.utils and
  \<^verbatim>\<open>handleCustomerResponse\<close>, which may throw. Logging is left out.
\<close>

record env =
  jsonParse :: "string \<Rightarrow> string + jsval"
  jsonStringify :: "jsval \<Rightarrow> jsval"
  toStringJS :: "jsval \<Rightarrow> string"
  typeErrorMessage :: "jsval \<Rightarrow> string \<Rightarrow> string"
  errorStack :: "exn \<Rightarrow> string"
  amountString :: "int \<Rightarrow> int \<Rightarrow> string"
  requestTimestamp :: string
  responseTimestamp :: string
  BRAINTREE_PAYMENT_INTERACTION_TYPE_KEY :: string
  BRAINTREE_MERCHANT_ACCOUNT :: "string option"
  BRAINTREE_AUTOCAPTURE :: "string option"
  gateway :: "gateway_call list \<Rightarrow> gateway_call \<Rightarrow> exn + jsval"
  mapBraintreeMoneyToCommercetoolsMoney :: "jsval \<Rightarrow> jsval \<Rightarrow> exn + jsval"
  mapBraintreeStatusToCommercetoolsTransactionState :: "jsval \<Rightarrow> exn + jsval"
  mapBraintreeStatusToCommercetoolsTransactionType :: "jsval \<Rightarrow> exn + jsval"
  mapCommercetoolsCustomerToBraintreeCustomerCreateRequest ::
    "ct_customer \<Rightarrow> jsval \<Rightarrow> exn + jsval"
  handleCustomerResponse :: "string \<Rightarrow> jsval \<Rightarrow> ct_customer \<Rightarrow> exn + update_action list"

text \<open>
  Reading \<^verbatim>\<open>v.key\<close> throws a \<^verbatim>\<open>TypeError\<close> when \<open>v\<close> is \<^verbatim>\<open>null\<close> or
  \<^verbatim>\<open>undefined\<close>. The assignment \<^verbatim>\<open>v.key = x\<close> throws it as well when \<open>v\<close> is a
  primitive (the compiled modules are strict code).
\<close>

definition readProp :: "env \<Rightarrow> jsval \<Rightarrow> string \<Rightarrow> exn + jsval" where
  "readProp E v key =
     (if nullish v then Inl (JsError ''TypeError'' (typeErrorMessage E v key))
      else Inr (getProp v key))"

fun assignProp :: "env \<Rightarrow> jsval \<Rightarrow> string \<Rightarrow> jsval \<Rightarrow> exn + jsval" where
  "assignProp E (JObj k ps) key x = Inr (JObj k (putProp key x ps))"
| "assignProp E v key x = Inl (JsError ''TypeError'' (typeErrorMessage E v key))"

text \<open>\<^verbatim>\<open>process.env.NAME || undefined\<close>.\<close>

definition envOrUndefined :: "string option \<Rightarrow> jsval" where
  "envOrUndefined x = (if populated x then optStr x else JUndefined)"

text \<open>
  The spread \<^verbatim>\<open>{ ...base, ...v }\<close>: the own enumerable properties of \<open>v\<close> are written
  over the literal's earlier properties. A string spreads its characters under their
  indices; \<^verbatim>\<open>null\<close>, \<^verbatim>\<open>undefined\<close>, numbers and booleans spread nothing.
\<close>

fun decimal :: "nat \<Rightarrow> string" where
  "decimal n =
     (if n < 10 then [char_of (48 + n)] else decimal (n div 10) @ [char_of (48 + n mod 10)])"

fun ownEnumerable :: "jsval \<Rightarrow> (string \<times> jsval) list" where
  "ownEnumerable (JObj k ps) = ps"
| "ownEnumerable (JStr s) = map (\<lambda>i. (decimal i, JStr [s ! i])) [0..<length s]"
| "ownEnumerable v = []"

definition spread :: "(string \<times> jsval) list \<Rightarrow> jsval \<Rightarrow> (string \<times> jsval) list" where
  "spread base v = foldl (\<lambda>ps (k, x). putProp k x ps) base (ownEnumerable v)"


section \<open>utils/response.utils.ts\<close>

text \<open>\<^verbatim>\<open>typeof data === 'string' ? data : JSON.stringify(data)\<close>\<close>

fun stringifyData :: "env \<Rightarrow> jsval \<Rightarrow> jsval" where
  "stringifyData E (JStr s) = JStr s"
| "stringifyData E v = jsonStringify E v"

text \<open>\<^verbatim>\<open>typeof v === 'object'\<close>, which holds of \<^verbatim>\<open>null\<close> too.\<close>

definition typeofObject :: "jsval \<Rightarrow> bool" where
  "typeofObject v = (v = JNull \<or> isObject v)"

text \<open>
  \<^verbatim>\<open>handleRequest(requestName, request)\<close>. It cleans \<open>request\<close> in place before the
  caller sends it to the gateway, so the model returns the cleaned request with the actions.
\<close>

definition handleRequest :: "env \<Rightarrow> string \<Rightarrow> jsval \<Rightarrow> update_action list \<times> jsval" where
  "handleRequest E requestName request =
     (let request' = (if typeofObject request then removeEmptyProperties request else request)
      in ([AddInterfaceInteraction (BRAINTREE_PAYMENT_INTERACTION_TYPE_KEY E)
             (requestName @ ''Request'') (stringifyData E request') (requestTimestamp E)],
          request'))"

text \<open>
  \<^verbatim>\<open>handleResponse(requestName, response, transactionId?, addInterfaceInteraction = true)\<close>;
  it cleans \<open>response\<close> in place, and the callers read the response afterwards.
\<close>

definition setFieldAction :: "string option \<Rightarrow> string" where
  "setFieldAction transactionId =
     (if populated transactionId then ''setTransactionCustomField'' else ''setCustomField'')"

definition handleResponse ::
  "env \<Rightarrow> string \<Rightarrow> jsval \<Rightarrow> string option \<Rightarrow> bool \<Rightarrow> update_action list \<times> jsval" where
  "handleResponse E requestName response transactionId addInterfaceInteraction =
     (let response' = (if typeofObject response then removeEmptyProperties response else response)
      in ([SetField (setFieldAction transactionId) transactionId (requestName @ ''Response'')
             (stringifyData E response')]
          @ (if addInterfaceInteraction
             then [AddInterfaceInteraction (BRAINTREE_PAYMENT_INTERACTION_TYPE_KEY E)
                     (requestName @ ''Response'') (stringifyData E response')
                     (responseTimestamp E)]
             else [])
          @ [SetField (setFieldAction transactionId) transactionId (requestName @ ''Request'')
               JNull],
          response'))"

text \<open>
  Modelled from the spec: service/payment.service imports \<^verbatim>\<open>handlePaymentResponse\<close> from
  utils/response.utils, and the utils/response.utils at hand exports no function of that
  name. The spec has the handlers clear the originating request field on success as on
  failure, which is what \<^verbatim>\<open>handleResponse\<close> of that file does with the same parameter
  list; \<^verbatim>\<open>handlePaymentResponse\<close> is taken to be it, called with its default
  \<^verbatim>\<open>addInterfaceInteraction = true\<close>.
\<close>

definition handlePaymentResponse ::
  "env \<Rightarrow> string \<Rightarrow> jsval \<Rightarrow> string option \<Rightarrow> update_action list \<times> jsval" where
  "handlePaymentResponse E requestName response transactionId =
     handleResponse E requestName response transactionId True"

text \<open>
  \<^verbatim>\<open>error instanceof Error && 'message' in error ? error.message : 'Unknown error'\<close>
\<close>

fun errorMessage :: "exn \<Rightarrow> string" where
  "errorMessage (CustomError code msg) = msg"
| "errorMessage (JsError name msg) = msg"
| "errorMessage (NonError v) = ''Unknown error''"

definition handleError :: "env \<Rightarrow> string \<Rightarrow> exn \<Rightarrow> string option \<Rightarrow> update_action list" where
  "handleError E requestName error transactionId =
     [SetField (setFieldAction transactionId) transactionId (requestName @ ''Response'')
        (jsonStringify E
           (JObj Plain [(''success'', JBool False), (''message'', JStr (errorMessage error))])),
      SetField (setFieldAction transactionId) transactionId (requestName @ ''Request'') JNull]"

section \<open>service/payment.service.ts\<close>

definition CHANNEL_COMMERCETOOLS :: string where
  "CHANNEL_COMMERCETOOLS = ''commercetools''"

text \<open>
  \<^verbatim>\<open>!!request?.customerId || !!request.customer?.id\<close>: the second operand reads
  \<^verbatim>\<open>request.customer\<close> without optional chaining.
\<close>

definition storeInVaultOnSuccess :: "env \<Rightarrow> jsval \<Rightarrow> exn + bool" where
  "storeInVaultOnSuccess E request =
     (if truthy (optProp request ''customerId'') then Inr True
      else case readProp E request ''customer'' of
             Inl e \<Rightarrow> Inl e
           | Inr customer \<Rightarrow> Inr (truthy (optProp customer ''id'')))"

definition parseTransactionSaleRequest :: "env \<Rightarrow> ct_payment \<Rightarrow> exn + jsval" where
  "parseTransactionSaleRequest E pay =
     (case field (custom pay) ''transactionSaleRequest'' of
        None \<Rightarrow> Inl (CustomError 500 ''transactionSaleRequest is missing'')
      | Some transactionSaleRequest \<Rightarrow>
          if transactionSaleRequest = []
          then Inl (CustomError 500 ''transactionSaleRequest is missing'')
          else
            (case amountPlanned pay of
               None \<Rightarrow> Inl (CustomError 500 ''amountPlanned is missing'')
             | Some ap \<Rightarrow>
                 (let request =
                    (case jsonParse E transactionSaleRequest of
                       Inr r \<Rightarrow> r
                     | Inl e \<Rightarrow>
                         JObj Plain [(''paymentMethodNonce'', JStr transactionSaleRequest)])
                  in (case storeInVaultOnSuccess E request of
                        Inl e \<Rightarrow> Inl e
                      | Inr store \<Rightarrow>
                          Inr (JObj Plain (spread
                            [(''amount'',
                                JStr (amountString E (centAmount ap) (fractionDigits ap))),
                             (''merchantAccountId'',
                                envOrUndefined (BRAINTREE_MERCHANT_ACCOUNT E)),
                             (''channel'', JStr CHANNEL_COMMERCETOOLS),
                             (''options'', JObj Plain
                                [(''submitForSettlement'',
                                    JBool (BRAINTREE_AUTOCAPTURE E = Some ''true'')),
                                 (''storeInVaultOnSuccess'', JBool store)])]
                            request))))))"

definition findSuitableTransactionId ::
  "payment_with_optional_transaction \<Rightarrow> string \<Rightarrow> exn + jsval" where
  "findSuitableTransactionId pwt ty =
     (case transaction pwt of
        Some t \<Rightarrow> Inr (optStr (interactionId t))
      | None \<Rightarrow>
          (case payment pwt of
             None \<Rightarrow> Inl (CustomError 500 ''The payment has no suitable transaction'')
           | Some pay \<Rightarrow>
               let txs = filter (\<lambda>t. type_tx t = ty) (transactions pay)
               in if length txs = 0
                  then Inl (CustomError 500 ''The payment has no suitable transaction'')
                  else Inr (optStr (interactionId (txs ! (length txs - 1))))))"

text \<open>
  \<^verbatim>\<open>payment?.custom?.fields[requestField] ?? transaction?.custom?.fields[requestField] ?? null\<close>
\<close>

definition requestJSON :: "payment_with_optional_transaction \<Rightarrow> string \<Rightarrow> string option" where
  "requestJSON pwt requestField =
     (case (case payment pwt of None \<Rightarrow> None | Some pay \<Rightarrow> field (custom pay) requestField) of
        Some s \<Rightarrow> Some s
      | None \<Rightarrow>
          (case transaction pwt of None \<Rightarrow> None | Some t \<Rightarrow> field (custom_tx t) requestField))"

definition parseRequest ::
  "env \<Rightarrow> payment_with_optional_transaction \<Rightarrow> string \<Rightarrow> string \<Rightarrow> exn + jsval" where
  "parseRequest E pwt requestField transactionType =
     (case requestJSON pwt requestField of
        None \<Rightarrow> Inl (CustomError 500 (requestField @ '' is missing''))
      | Some rj \<Rightarrow>
          if rj = [] then Inl (CustomError 500 (requestField @ '' is missing''))
          else
            (let request =
               (case jsonParse E rj of
                  Inr r \<Rightarrow> r
                | Inl e \<Rightarrow> JObj Plain [(''transactionId'', JStr rj)])
             in (case readProp E request ''transactionId'' of
                   Inl e \<Rightarrow> Inl e
                 | Inr given \<Rightarrow>
                     (case (if nullish given then findSuitableTransactionId pwt transactionType
                            else Inr given) of
                        Inl e \<Rightarrow> Inl e
                      | Inr transactionId \<Rightarrow>
                          assignProp E request ''transactionId'' transactionId))))"

definition getPaymentMethodHint :: "env \<Rightarrow> jsval \<Rightarrow> exn + jsval" where
  "getPaymentMethodHint E response =
     (case readProp E response ''paymentInstrumentType'' of
        Inl e \<Rightarrow> Inl e
      | Inr instrument \<Rightarrow>
          Inr (if instrument = JStr ''credit_card''
               then JStr (toStringJS E (optProp (optProp response ''creditCard'') ''cardType'')
                          @ '' ''
                          @ toStringJS E (optProp (optProp response ''creditCard'') ''maskedNumber''))
               else
                 (let account =
                    (if instrument = JStr ''paypal_account''
                     then optProp (optProp response ''paypalAccount'') ''payerEmail''
                     else if instrument = JStr ''venmo_account''
                     then optProp (optProp response ''venmoAccount'') ''username''
                     else if instrument = JStr ''android_pay_card''
                     then optProp (optProp response ''androidPayCard'') ''sourceDescription''
                     else if instrument = JStr ''apple_pay_card''
                     then optProp (optProp response ''applePayCard'') ''sourceDescription''
                     else JStr [])
                  in if nullish account then JStr [] else account)))"

definition updatePaymentFields :: "env \<Rightarrow> jsval \<Rightarrow> exn + update_action list" where
  "updatePaymentFields E response =
     (case readProp E response ''status'' of
        Inl e \<Rightarrow> Inl e
      | Inr status \<Rightarrow>
          (case getPaymentMethodHint E response of
             Inl e \<Rightarrow> Inl e
           | Inr paymentMethodHint \<Rightarrow>
               Inr [SetStatusInterfaceCode status,
                    SetStatusInterfaceText status,
                    SetMethodInfoMethod
                      (toStringJS E (getProp response ''paymentInstrumentType'')
                       @ (if truthy paymentMethodHint
                          then '' ('' @ toStringJS E paymentMethodHint @ '')''
                          else []))]))"

text \<open>
  The \<^verbatim>\<open>addTransaction\<close> literal that each handler pushes, evaluated field by field in
  source order: \<open>ty\<close> is the evaluation of its \<^verbatim>\<open>type\<close> (a constant, or for the sale the
  mapped status), \<open>ap\<close> is \<^verbatim>\<open>payment?.amountPlanned\<close>.
\<close>

definition addTransactionAction ::
  "env \<Rightarrow> exn + jsval \<Rightarrow> jsval \<Rightarrow> ct_money option \<Rightarrow> exn + update_action" where
  "addTransactionAction E ty response ap =
     (case ty of
        Inl e \<Rightarrow> Inl e
      | Inr ty' \<Rightarrow>
     (case readProp E response ''amount'' of
        Inl e \<Rightarrow> Inl e
      | Inr amount \<Rightarrow>
     (case mapBraintreeMoneyToCommercetoolsMoney E amount
             (case ap of None \<Rightarrow> JUndefined | Some m \<Rightarrow> JNum (of_int (fractionDigits m))) of
        Inl e \<Rightarrow> Inl e
      | Inr cents \<Rightarrow>
     (case readProp E response ''id'' of
        Inl e \<Rightarrow> Inl e
      | Inr rid \<Rightarrow>
     (case readProp E response ''updatedAt'' of
        Inl e \<Rightarrow> Inl e
      | Inr updatedAt \<Rightarrow>
     (case readProp E response ''status'' of
        Inl e \<Rightarrow> Inl e
      | Inr status \<Rightarrow>
     (case mapBraintreeStatusToCommercetoolsTransactionState E status of
        Inl e \<Rightarrow> Inl e
      | Inr state \<Rightarrow>
          Inr (AddTransaction ty' cents
                 (case ap of None \<Rightarrow> JUndefined | Some m \<Rightarrow> JStr (currencyCode m))
                 rid updatedAt state))))))))"

text \<open>\<^verbatim>\<open>paymentWithOptionalTransaction.payment?.custom?.fields?.[name]\<close>\<close>

definition paymentField :: "payment_with_optional_transaction \<Rightarrow> string \<Rightarrow> string option" where
  "paymentField pwt name =
     (case payment pwt of None \<Rightarrow> None | Some pay \<Rightarrow> field (custom pay) name)"

text \<open>\<^verbatim>\<open>paymentWithOptionalTransaction?.transaction?.id\<close>\<close>

definition transactionId :: "payment_with_optional_transaction \<Rightarrow> string option" where
  "transactionId pwt = map_option id_tx (transaction pwt)"

definition plannedAmount :: "payment_with_optional_transaction \<Rightarrow> ct_money option" where
  "plannedAmount pwt = (case payment pwt of None \<Rightarrow> None | Some pay \<Rightarrow> amountPlanned pay)"

text \<open>
  The handlers return the gateway calls they made, in order, and the update actions. The
  part of a \<^verbatim>\<open>try\<close> block after the gateway call is a value of \<open>exn + update_action list\<close>,
  and the \<^verbatim>\<open>catch\<close> turns its \<open>Inl\<close> into \<open>handleError\<close>.
\<close>

definition refund ::
  "env \<Rightarrow> payment_with_optional_transaction \<Rightarrow> gateway_call list \<times> update_action list" where
  "refund E pwt =
     (if \<not> populated (paymentField pwt ''refundRequest'') then ([], [])
      else
        (case parseRequest E pwt ''refundRequest'' ''Charge'' of
           Inl e \<Rightarrow> ([], handleError E ''refund'' e (transactionId pwt))
         | Inr parsed \<Rightarrow>
             (let (updateActions, request) = handleRequest E ''refund'' parsed;
                  call = Refund (getProp request ''transactionId'') (optProp request ''amount'')
              in ([call],
                  (case
                     (case gateway E [] call of
                        Inl e \<Rightarrow> Inl e
                      | Inr answer \<Rightarrow>
                          (let (responseActions, response) =
                                 handlePaymentResponse E ''refund'' answer (transactionId pwt)
                           in (case addTransactionAction E (Inr (JStr ''Refund'')) response
                                      (plannedAmount pwt) of
                                 Inl e \<Rightarrow> Inl e
                               | Inr tx \<Rightarrow>
                                   (case updatePaymentFields E response of
                                      Inl e \<Rightarrow> Inl e
                                    | Inr paymentFields \<Rightarrow>
                                        Inr (updateActions @ responseActions @ [tx]
                                             @ paymentFields)))))
                   of
                     Inl e \<Rightarrow> handleError E ''refund'' e (transactionId pwt)
                   | Inr actions \<Rightarrow> actions)))))"

definition submitForSettlement ::
  "env \<Rightarrow> payment_with_optional_transaction \<Rightarrow> gateway_call list \<times> update_action list" where
  "submitForSettlement E pwt =
     (if \<not> populated (paymentField pwt ''submitForSettlementRequest'') then ([], [])
      else
        (case parseRequest E pwt ''submitForSettlementRequest'' ''Authorization'' of
           Inl e \<Rightarrow> ([], handleError E ''submitForSettlement'' e (transactionId pwt))
         | Inr parsed \<Rightarrow>
             (let (updateActions, request) = handleRequest E ''submitForSettlement'' parsed;
                  call = SubmitForSettlement (getProp request ''transactionId'')
                           (optProp request ''amount'')
              in ([call],
                  (case
                     (case gateway E [] call of
                        Inl e \<Rightarrow> Inl e
                      | Inr answer \<Rightarrow>
                          (let (responseActions, response) =
                                 handlePaymentResponse E ''submitForSettlement'' answer
                                   (transactionId pwt)
                           in (case addTransactionAction E (Inr (JStr ''Charge'')) response
                                      (plannedAmount pwt) of
                                 Inl e \<Rightarrow> Inl e
                               | Inr tx \<Rightarrow>
                                   (case updatePaymentFields E response of
                                      Inl e \<Rightarrow> Inl e
                                    | Inr paymentFields \<Rightarrow>
                                        Inr (updateActions @ responseActions @ [tx]
                                             @ paymentFields)))))
                   of
                     Inl e \<Rightarrow> handleError E ''submitForSettlement'' e (transactionId pwt)
                   | Inr actions \<Rightarrow> actions)))))"

definition voidTransaction ::
  "env \<Rightarrow> payment_with_optional_transaction \<Rightarrow> gateway_call list \<times> update_action list" where
  "voidTransaction E pwt =
     (if \<not> populated (paymentField pwt ''voidRequest'') then ([], [])
      else
        (case parseRequest E pwt ''voidRequest'' ''Authorization'' of
           Inl e \<Rightarrow> ([], handleError E ''void'' e (transactionId pwt))
         | Inr parsed \<Rightarrow>
             (let (updateActions, request) = handleRequest E ''void'' parsed;
                  call = VoidTransaction (getProp request ''transactionId'')
              in ([call],
                  (case
                     (case gateway E [] call of
                        Inl e \<Rightarrow> Inl e
                      | Inr answer \<Rightarrow>
                          (let (responseActions, response) =
                                 handlePaymentResponse E ''void'' answer (transactionId pwt)
                           in (case addTransactionAction E (Inr (JStr ''CancelAuthorization''))
                                      response (plannedAmount pwt) of
                                 Inl e \<Rightarrow> Inl e
                               | Inr tx \<Rightarrow>
                                   (case updatePaymentFields E response of
                                      Inl e \<Rightarrow> Inl e
                                    | Inr paymentFields \<Rightarrow>
                                        Inr (updateActions @ responseActions @ [tx]
                                             @ paymentFields)))))
                   of
                     Inl e \<Rightarrow> handleError E ''void'' e (transactionId pwt)
                   | Inr actions \<Rightarrow> actions)))))"

text \<open>\<^verbatim>\<open>payment?.custom?.fields?.[name]\<close> for \<^verbatim>\<open>payment: Payment | undefined\<close>\<close>

definition fieldOf :: "ct_payment option \<Rightarrow> string \<Rightarrow> string option" where
  "fieldOf p name = (case p of None \<Rightarrow> None | Some pay \<Rightarrow> field (custom pay) name)"

definition handleTransactionSaleRequest ::
  "env \<Rightarrow> ct_payment option \<Rightarrow> gateway_call list \<times> update_action list" where
  "handleTransactionSaleRequest E p =
     (case p of
        None \<Rightarrow> ([], [])
      | Some pay \<Rightarrow>
          if \<not> populated (field (custom pay) ''transactionSaleRequest'') then ([], [])
          else
            (case parseTransactionSaleRequest E pay of
               Inl e \<Rightarrow> ([], handleError E ''transactionSale'' e None)
             | Inr parsed \<Rightarrow>
                 (let (updateActions, request) = handleRequest E ''transactionSale'' parsed;
                      call = TransactionSale request
                  in ([call],
                      (case
                         (case gateway E [] call of
                            Inl e \<Rightarrow> Inl e
                          | Inr answer \<Rightarrow>
                              (let (responseActions, response) =
                                     handlePaymentResponse E ''transactionSale'' answer None
                               in (case addTransactionAction E
                                          (case readProp E response ''status'' of
                                             Inl e \<Rightarrow> Inl e
                                           | Inr status \<Rightarrow>
                                               mapBraintreeStatusToCommercetoolsTransactionType
                                                 E status)
                                          response (amountPlanned pay) of
                                     Inl e \<Rightarrow> Inl e
                                   | Inr tx \<Rightarrow>
                                       (case updatePaymentFields E response of
                                          Inl e \<Rightarrow> Inl e
                                        | Inr paymentFields \<Rightarrow>
                                            Inr (updateActions @ responseActions @ [tx]
                                                 @ (if \<not> populated (interfaceId pay)
                                                    then [SetInterfaceId (getProp response ''id'')]
                                                    else [])
                                                 @ paymentFields)))))
                       of
                         Inl e \<Rightarrow> handleError E ''transactionSale'' e None
                       | Inr actions \<Rightarrow> actions)))))"

text \<open>
  \<^verbatim>\<open>handleGetClientTokenRequest\<close> parses and records the request before its
  \<^verbatim>\<open>try\<close> block, so a \<^verbatim>\<open>SyntaxError\<close> of \<^verbatim>\<open>JSON.parse\<close> leaves the function: the
  result is \<open>Inl\<close> of it.
\<close>

definition handleGetClientTokenRequest ::
  "env \<Rightarrow> ct_payment option \<Rightarrow> gateway_call list \<times> (exn + update_action list)" where
  "handleGetClientTokenRequest E p =
     (case fieldOf p ''getClientTokenRequest'' of
        None \<Rightarrow> ([], Inr [])
      | Some getClientTokenRequest \<Rightarrow>
          if getClientTokenRequest = [] then ([], Inr [])
          else
            (case jsonParse E getClientTokenRequest of
               Inl msg \<Rightarrow> ([], Inl (JsError ''SyntaxError'' msg))
             | Inr parsed \<Rightarrow>
                 (let (updateActions, request) =
                        handleRequest E ''getClientToken''
                          (JObj Plain
                             (spread [(''merchantAccountId'',
                                        envOrUndefined (BRAINTREE_MERCHANT_ACCOUNT E))]
                                parsed));
                      call = GetClientToken request
                  in ([call],
                      (case gateway E [] call of
                         Inl e \<Rightarrow> Inr (handleError E ''getClientToken'' e None)
                       | Inr response \<Rightarrow>
                           Inr (updateActions
                                @ fst (handlePaymentResponse E ''getClientToken'' response
                                         None)))))))"

section \<open>controllers/customer.controller.ts\<close>

text \<open>\<^verbatim>\<open>customer?.custom?.fields?.[name]\<close>\<close>

definition customerField :: "ct_customer \<Rightarrow> string \<Rightarrow> string option" where
  "customerField customer name = field (custom_cust customer) name"

text \<open>
  \<^verbatim>\<open>parseVaultRequest(customer)\<close>. \<^verbatim>\<open>JSON.parse(undefined)\<close> throws like any text that
  is not JSON, and the fallback then wraps \<^verbatim>\<open>undefined\<close>.
\<close>

definition parseVaultRequest :: "env \<Rightarrow> ct_customer \<Rightarrow> exn + jsval" where
  "parseVaultRequest E customer =
     (let request =
        (case customerField customer ''vaultRequest'' of
           None \<Rightarrow> JObj Plain [(''paymentMethodNonce'', JUndefined)]
         | Some vaultRequest \<Rightarrow>
             (case jsonParse E vaultRequest of
                Inr r \<Rightarrow> r
              | Inl e \<Rightarrow> JObj Plain [(''paymentMethodNonce'', JStr vaultRequest)]))
      in if populated (customerField customer ''customerId'')
         then
           (case assignProp E request ''customerId''
                   (optStr (customerField customer ''customerId'')) of
              Inl e \<Rightarrow> Inl e
            | Inr request1 \<Rightarrow>
                (case (if \<not> truthy (getProp request1 ''options'')
                       then assignProp E request1 ''options'' (JObj Plain [])
                       else Inr request1) of
                   Inl e \<Rightarrow> Inl e
                 | Inr request2 \<Rightarrow>
                     (case assignProp E (getProp request2 ''options'')
                             ''failOnDuplicatePaymentMethod'' (JBool True) of
                        Inl e \<Rightarrow> Inl e
                      | Inr options \<Rightarrow> assignProp E request2 ''options'' options)))
         else mapCommercetoolsCustomerToBraintreeCustomerCreateRequest E customer
                (jsonStringify E request))"

text \<open>
  The three \<^verbatim>\<open>if\<close> blocks of \<^verbatim>\<open>update\<close>. Each takes the gateway calls made so far and
  the current \<^verbatim>\<open>updateActions\<close> and returns them updated, or \<open>Inl\<close> what it throws past
  its inner \<^verbatim>\<open>try\<close> (only the \<^verbatim>\<open>JSON.parse\<close> of \<^verbatim>\<open>findRequest\<close> stands outside one).
  On success the new actions are \<^verbatim>\<open>updateActions.concat(...)\<close>; in the \<^verbatim>\<open>catch\<close> the
  source assigns \<^verbatim>\<open>updateActions = handleError(...)\<close>.
\<close>

type_synonym progress = "gateway_call list \<times> update_action list"

definition updateFind :: "env \<Rightarrow> ct_customer \<Rightarrow> progress \<Rightarrow> exn + progress" where
  "updateFind E customer st =
     (case st of (calls, updateActions) \<Rightarrow>
        (case customerField customer ''findRequest'' of
           None \<Rightarrow> Inr st
         | Some findRequest \<Rightarrow>
             if findRequest = [] then Inr st
             else
               (case jsonParse E findRequest of
                  Inl msg \<Rightarrow> Inl (JsError ''SyntaxError'' msg)
                | Inr request \<Rightarrow>
                    (let customerId =
                       (if \<not> nullish (optProp request ''customerId'')
                        then optProp request ''customerId''
                        else (case customerField customer ''customerId'' of
                                Some c \<Rightarrow> JStr c
                              | None \<Rightarrow> JStr (id_cust customer)));
                         call = FindCustomer customerId
                     in Inr (calls @ [call],
                          (case
                             (case gateway E calls call of
                                Inl e \<Rightarrow> Inl e
                              | Inr response \<Rightarrow>
                                  handleCustomerResponse E ''find'' response customer)
                           of
                             Inl e \<Rightarrow> handleError E ''find'' e None
                           | Inr actions \<Rightarrow> updateActions @ actions))))))"

definition updateCreate :: "env \<Rightarrow> ct_customer \<Rightarrow> progress \<Rightarrow> progress" where
  "updateCreate E customer st =
     (case st of (calls, updateActions) \<Rightarrow>
        (case customerField customer ''createRequest'' of
           None \<Rightarrow> st
         | Some createRequest \<Rightarrow>
             if createRequest = [] then st
             else
               (case
                  (case mapCommercetoolsCustomerToBraintreeCustomerCreateRequest E customer
                          (JStr createRequest) of
                     Inl e \<Rightarrow> Inl e
                   | Inr request \<Rightarrow>
                       (case readProp E request ''id'' of
                          Inl e \<Rightarrow> Inl e
                        | Inr rid \<Rightarrow>
                            if \<not> truthy rid
                            then Inl (CustomError 400 ''field customerId is missing'')
                            else Inr (CreateCustomer request)))
                of
                  Inl e \<Rightarrow> (calls, handleError E ''create'' e None)
                | Inr call \<Rightarrow>
                    (calls @ [call],
                     (case
                        (case gateway E calls call of
                           Inl e \<Rightarrow> Inl e
                         | Inr response \<Rightarrow>
                             handleCustomerResponse E ''create'' response customer)
                      of
                        Inl e \<Rightarrow> handleError E ''create'' e None
                      | Inr actions \<Rightarrow> updateActions @ actions)))))"

definition updateVault :: "env \<Rightarrow> ct_customer \<Rightarrow> progress \<Rightarrow> progress" where
  "updateVault E customer st =
     (case st of (calls, updateActions) \<Rightarrow>
        (case customerField customer ''vaultRequest'' of
           None \<Rightarrow> st
         | Some vaultRequest \<Rightarrow>
             if vaultRequest = [] then st
             else
               (case parseVaultRequest E customer of
                  Inl e \<Rightarrow> (calls, handleError E ''vault'' e None)
                | Inr request \<Rightarrow>
                    (let call =
                       (if \<not> populated (customerField customer ''customerId'')
                        then CreateCustomer request
                        else CreatePaymentMethod request)
                     in (calls @ [call],
                         (case
                            (case gateway E calls call of
                               Inl e \<Rightarrow> Inl e
                             | Inr response \<Rightarrow>
                                 handleCustomerResponse E ''vault'' response customer)
                          of
                            Inl e \<Rightarrow> handleError E ''vault'' e None
                          | Inr actions \<Rightarrow> updateActions @ actions))))))"

text \<open>
  What the controller resolves to: \<^verbatim>\<open>{ statusCode, actions }\<close>, or \<open>None\<close> for
  \<^verbatim>\<open>undefined\<close>.
\<close>

record controller_result =
  statusCode :: int
  actions :: "update_action list"

text \<open>
  \<^verbatim>\<open>update(resource)\<close>: the outer \<^verbatim>\<open>catch\<close> rethrows an \<^verbatim>\<open>Error\<close> as a
  \<^verbatim>\<open>CustomError(400, ...)\<close> whose message carries \<^verbatim>\<open>error.stack\<close>, and falls through
  (the function then returns \<^verbatim>\<open>undefined\<close>) for any other thrown value.
\<close>

fun rethrow :: "env \<Rightarrow> exn \<Rightarrow> exn + controller_result option" where
  "rethrow E (NonError v) = Inr None"
| "rethrow E e =
     Inl (CustomError 400 (''Internal server error on CustomerController: '' @ errorStack E e))"

definition update ::
  "env \<Rightarrow> customer_reference option \<Rightarrow> gateway_call list \<times> (exn + controller_result option)"
  where
  "update E resource =
     (case (case resource of None \<Rightarrow> None | Some r \<Rightarrow> obj r) of
        None \<Rightarrow> ([], rethrow E (CustomError 400 ''customer obj is missing''))
      | Some customer \<Rightarrow>
          (case updateFind E customer ([], []) of
             Inl e \<Rightarrow> ([], rethrow E e)
           | Inr st1 \<Rightarrow>
               (case updateVault E customer (updateCreate E customer st1) of
                  (calls, updateActions) \<Rightarrow>
                    (calls, Inr (Some \<lparr>statusCode = 200, actions = updateActions\<rparr>)))))"

definition customerController ::
  "env \<Rightarrow> string \<Rightarrow> customer_reference option
     \<Rightarrow> gateway_call list \<times> (exn + controller_result option)" where
  "customerController E action resource =
     (if action = ''Create'' then ([], Inr None)
      else if action = ''Update'' then update E resource
      else ([], Inl (CustomError 500
        (''Internal Server Error - Resource not recognized. ''
         @ ''Allowed values are '' @ [CHR 0x27] @ ''Create'' @ [CHR 0x27] @ '' or ''
         @ [CHR 0x27] @ ''Update'' @ [CHR 0x27] @ ''.''))))"

section \<open>Predicates used in the statements\<close>

text \<open>An object or array without own keys.\<close>

fun emptyObject :: "jsval \<Rightarrow> bool" where
  "emptyObject (JObj k ps) = (ps = [])"
| "emptyObject v = False"

text \<open>
  No property, at any depth, holds \<^verbatim>\<open>null\<close> or an object without own keys.
\<close>

fun noEmptyProperties :: "jsval \<Rightarrow> bool"
  and noEmptyProps :: "(string \<times> jsval) list \<Rightarrow> bool" where
  "noEmptyProperties (JObj k ps) = noEmptyProps ps"
| "noEmptyProperties JUndefined = True"
| "noEmptyProperties JNull = True"
| "noEmptyProperties (JBool b) = True"
| "noEmptyProperties (JNum n) = True"
| "noEmptyProperties (JStr s) = True"
| "noEmptyProps [] = True"
| "noEmptyProps ((prop, v) # ps) =
     (v \<noteq> JNull \<and> \<not> emptyObject v \<and> noEmptyProperties v \<and> noEmptyProps ps)"

text \<open>The \<^verbatim>\<open>action\<close> and \<^verbatim>\<open>transactionId\<close> of a custom-field action.\<close>

fun fieldTarget :: "update_action \<Rightarrow> (string \<times> string option) option" where
  "fieldTarget (SetField action tid name v) = Some (action, tid)"
| "fieldTarget a = None"

text \<open>
  The action that clears the request field of the operation \<open>name\<close>: it sets
  \<open>name\<close>\<^verbatim>\<open>Request\<close> to \<^verbatim>\<open>null\<close>, on the transaction when there is a transaction id
  and on the payment otherwise.
\<close>

definition clearing :: "string \<Rightarrow> string option \<Rightarrow> update_action" where
  "clearing name tid = SetField (setFieldAction tid) tid (name @ ''Request'') JNull"

text \<open>
  The two actions of a failed operation: the response field set to the JSON text of
  \<^verbatim>\<open>{success: false, message}\<close>, and the request field cleared.
\<close>

definition failureActions ::
  "env \<Rightarrow> string \<Rightarrow> exn \<Rightarrow> string option \<Rightarrow> update_action list" where
  "failureActions E operation e tid =
     [SetField (setFieldAction tid) tid (operation @ ''Response'')
        (jsonStringify E
           (JObj Plain [(''success'', JBool False), (''message'', JStr (errorMessage e))])),
      SetField (setFieldAction tid) tid (operation @ ''Request'') JNull]"

text \<open>The payment's transactions of type \<open>ty\<close>, in the payment's order.\<close>

definition suitable :: "payment_with_optional_transaction \<Rightarrow> string \<Rightarrow> ct_transaction list" where
  "suitable pwt ty =
     (case payment pwt of
        None \<Rightarrow> []
      | Some pay \<Rightarrow> filter (\<lambda>t. type_tx t = ty) (transactions pay))"

text \<open>
  Where a custom-field action of an event should go: to the event's transaction when it
  has one, to the payment otherwise.
\<close>

definition eventTarget :: "payment_with_optional_transaction \<Rightarrow> string \<times> string option" where
  "eventTarget pwt =
     (case transaction pwt of
        Some tx \<Rightarrow> (''setTransactionCustomField'', Some (id_tx tx))
      | None \<Rightarrow> (''setCustomField'', None))"

text \<open>
  A custom-field action goes where the transaction id \<open>tid\<close> says; other actions are not
  concerned.
\<close>

definition targeted :: "string option \<Rightarrow> update_action \<Rightarrow> bool" where
  "targeted tid a =
     (case fieldTarget a of None \<Rightarrow> True | Some x \<Rightarrow> x = (setFieldAction tid, tid))"

text \<open>The platform gives every transaction a non-empty id.\<close>

definition identified :: "payment_with_optional_transaction \<Rightarrow> bool" where
  "identified pwt = (case transaction pwt of Some tx \<Rightarrow> id_tx tx \<noteq> [] | None \<Rightarrow> True)"


section \<open>A concrete environment for the examples\<close>

text \<open>
  The examples run the handlers in the environment below. Its \<^verbatim>\<open>JSON.parse\<close> knows the
  two JSON texts the examples use and rejects their other texts, none of which is JSON;
  its \<^verbatim>\<open>JSON.stringify\<close> is right on trees of plain objects, strings without characters
  to escape, booleans and \<^verbatim>\<open>null\<close>, which is all the examples serialise.
\<close>

definition amountText :: string where
  \<open>amountText = ''{"amount":"5.00"}''\<close>

definition sampleParse :: "string \<Rightarrow> string + jsval" where
  "sampleParse s =
     (if s = ''{}'' then Inr (JObj Plain [])
      else if s = amountText then Inr (JObj Plain [(''amount'', JStr ''5.00'')])
      else Inl ''Unexpected token in JSON at position 0'')"

fun sampleText :: "jsval \<Rightarrow> string"
  and sampleTextProps :: "(string \<times> jsval) list \<Rightarrow> string list" where
  "sampleText (JObj k ps) =
     ''{'' @ foldr (\<lambda>p acc. if acc = [] then p else p @ '','' @ acc) (sampleTextProps ps) []
     @ ''}''"
| "sampleText JUndefined = ''null''"
| "sampleText JNull = ''null''"
| "sampleText (JBool b) = (if b then ''true'' else ''false'')"
| "sampleText (JNum n) = ''0''"
| "sampleText (JStr s) = [CHR 0x22] @ s @ [CHR 0x22]"
| "sampleTextProps [] = []"
| "sampleTextProps ((prop, v) # ps) =
     (if v = JUndefined then sampleTextProps ps
      else ([CHR 0x22] @ prop @ [CHR 0x22] @ '':'' @ sampleText v) # sampleTextProps ps)"

fun sampleToString :: "jsval \<Rightarrow> string" where
  "sampleToString (JStr s) = s"
| "sampleToString JUndefined = ''undefined''"
| "sampleToString JNull = ''null''"
| "sampleToString (JBool b) = (if b then ''true'' else ''false'')"
| "sampleToString v = ''[object Object]''"

definition sampleTransaction :: jsval where
  "sampleTransaction =
     JObj Plain
       [(''id'', JStr ''tx9''),
        (''status'', JStr ''settled''),
        (''amount'', JStr ''10.00''),
        (''updatedAt'', JStr ''2024-01-01T00:00:00Z''),
        (''paymentInstrumentType'', JStr ''paypal_account''),
        (''paypalAccount'', JObj Plain [(''payerEmail'', JStr ''a@b.c'')])]"

fun acceptingGateway :: "gateway_call list \<Rightarrow> gateway_call \<Rightarrow> exn + jsval" where
  "acceptingGateway calls (GetClientToken r) = Inr (JStr ''token'')"
| "acceptingGateway calls (FindCustomer c) = Inr (JObj Plain [(''id'', c)])"
| "acceptingGateway calls (CreateCustomer r) = Inr (JObj Plain [(''id'', getProp r ''id'')])"
| "acceptingGateway calls (CreatePaymentMethod r) = Inr (JObj Plain [(''token'', JStr ''pm1'')])"
| "acceptingGateway calls c = Inr sampleTransaction"

definition rejectingGateway :: "gateway_call list \<Rightarrow> gateway_call \<Rightarrow> exn + jsval" where
  "rejectingGateway calls c = Inl (JsError ''Error'' ''Gateway unavailable'')"

definition sampleEnv :: env where
  "sampleEnv =
     \<lparr> jsonParse = sampleParse,
       jsonStringify = (\<lambda>v. if v = JUndefined then JUndefined else JStr (sampleText v)),
       toStringJS = sampleToString,
       typeErrorMessage = (\<lambda>v key. ''Cannot access property '' @ key),
       errorStack = (\<lambda>e. ''Error: '' @ errorMessage e),
       amountString = (\<lambda>c f. if c = 1000 \<and> f = 2 then ''10'' else ''0''),
       requestTimestamp = ''2024-01-01T00:00:00Z'',
       responseTimestamp = ''2024-01-01T00:00:01Z'',
       BRAINTREE_PAYMENT_INTERACTION_TYPE_KEY = ''braintree.payment.interaction'',
       BRAINTREE_MERCHANT_ACCOUNT = None,
       BRAINTREE_AUTOCAPTURE = Some ''true'',
       gateway = acceptingGateway,
       mapBraintreeMoneyToCommercetoolsMoney = (\<lambda>amount digits. Inr (JNum 1000)),
       mapBraintreeStatusToCommercetoolsTransactionState = (\<lambda>status. Inr (JStr ''Success'')),
       mapBraintreeStatusToCommercetoolsTransactionType = (\<lambda>status. Inr (JStr ''Charge'')),
       mapCommercetoolsCustomerToBraintreeCustomerCreateRequest =
         (\<lambda>customer request. Inr (JObj Plain [(''id'', JStr (id_cust customer))])),
       handleCustomerResponse =
         (\<lambda>name response customer.
            Inr [SetField ''setCustomField'' None (name @ ''Response'')
                   (JStr (sampleText response)),
                 SetField ''setCustomField'' None (name @ ''Request'') JNull]) \<rparr>"

definition rejectingEnv :: env where
  "rejectingEnv = sampleEnv \<lparr> gateway := rejectingGateway \<rparr>"

text \<open>A payment with the given custom fields and ten units of its currency planned.\<close>

definition samplePayment :: "(string \<times> string) list \<Rightarrow> ct_transaction list \<Rightarrow> ct_payment" where
  "samplePayment fs txs =
     \<lparr> custom = Some (map_of fs),
       amountPlanned = Some \<lparr> centAmount = 1000, fractionDigits = 2, currencyCode = ''EUR'' \<rparr>,
       transactions = txs,
       interfaceId = None \<rparr>"



definition sampleCharge :: ct_transaction where
  "sampleCharge =
     \<lparr> id_tx = ''t-2'', type_tx = ''Charge'', interactionId = Some ''bt-charge'',
       custom_tx = None \<rparr>"

definition sampleEvent ::
  "(string \<times> string) list \<Rightarrow> ct_transaction list \<Rightarrow> ct_transaction option
     \<Rightarrow> payment_with_optional_transaction" where
  "sampleEvent fs txs tx = \<lparr> payment = Some (samplePayment fs txs), transaction = tx \<rparr>"

text \<open>The three request fields of an event, all holding the same text.\<close>

definition threeRequests :: "string \<Rightarrow> (string \<times> string) list" where
  "threeRequests s =
     [(''refundRequest'', s), (''submitForSettlementRequest'', s), (''voidRequest'', s)]"

definition sampleCustomer :: "(string \<times> string) list \<Rightarrow> ct_customer" where
  "sampleCustomer fs = \<lparr> id_cust = ''c-1'', custom_cust = Some (map_of fs) \<rparr>"

definition sampleResource :: "(string \<times> string) list \<Rightarrow> customer_reference option" where
  "sampleResource fs = Some \<lparr> obj = Some (sampleCustomer fs) \<rparr>"

section \<open>removeEmptyProperties cleans once and for all\<close>

lemma isObject_removeEmptyProperties [simp]:
  "isObject (removeEmptyProperties v) = isObject v"
  by (cases v) simp_all

lemma removeEmptyProperties_clean:
  "noEmptyProperties (removeEmptyProperties v)"
  "noEmptyProps (removeProps ps)"
proof (induction v and ps rule: removeEmptyProperties_removeProps.induct)
  case (8 key v ps)
  then show ?case
    by (cases v) (auto simp: Let_def)
qed simp_all

lemma clean_unchanged:
  "noEmptyProperties v \<Longrightarrow> removeEmptyProperties v = v"
  "noEmptyProps ps \<Longrightarrow> removeProps ps = ps"
proof (induction v and ps rule: removeEmptyProperties_removeProps.induct)
  case (8 key v ps)
  then show ?case
    by (cases v) (auto simp: Let_def)
qed simp_all

lemma handleRequest_object:
  "handleRequest E name (JObj k ps) =
     ([AddInterfaceInteraction (BRAINTREE_PAYMENT_INTERACTION_TYPE_KEY E) (name @ ''Request'')
         (jsonStringify E (removeEmptyProperties (JObj k ps))) (requestTimestamp E)],
      removeEmptyProperties (JObj k ps))"
  by (simp add: handleRequest_def typeofObject_def Let_def)

lemma handleResponse_object:
  "snd (handleResponse E name (JObj k ps) tid b) = removeEmptyProperties (JObj k ps)"
  by (simp add: handleResponse_def typeofObject_def Let_def)

text \<open>
  C8. \<^verbatim>\<open>removeEmptyProperties\<close> is idempotent, and after one application no property at
  any depth holds \<^verbatim>\<open>null\<close> or an object without own keys. \<^verbatim>\<open>handleRequest\<close> and
  \<^verbatim>\<open>handleResponse\<close> apply it to an object before they serialise it: the request they
  hand back and record is the cleaned one.
\<close>

theorem C8_removeEmptyProperties_idempotent_clean:
  "removeEmptyProperties (removeEmptyProperties v) = removeEmptyProperties v
   \<and> noEmptyProperties (removeEmptyProperties v)
   \<and> snd (handleRequest E name (JObj k ps)) = removeEmptyProperties (JObj k ps)
   \<and> fst (handleRequest E name (JObj k ps)) =
       [AddInterfaceInteraction (BRAINTREE_PAYMENT_INTERACTION_TYPE_KEY E) (name @ ''Request'')
          (jsonStringify E (removeEmptyProperties (JObj k ps))) (requestTimestamp E)]
   \<and> snd (handleResponse E name (JObj k ps) tid b) = removeEmptyProperties (JObj k ps)"
  by (simp add: removeEmptyProperties_clean clean_unchanged handleRequest_object
      handleResponse_object del: removeEmptyProperties.simps)

theorem C8_witness:
  "removeEmptyProperties
     (JObj Plain
        [(''a'', JNull),
         (''b'', JObj (Array 2) [(''0'', JNull), (''1'', JObj Plain [])]),
         (''c'', JObj Plain [(''d'', JStr ''x''), (''e'', JNull)])])
   = JObj Plain [(''c'', JObj Plain [(''d'', JStr ''x'')])]
   \<and> noEmptyProperties (JObj Plain [(''c'', JObj Plain [(''d'', JStr ''x'')])])"
  using C8_removeEmptyProperties_idempotent_clean
    [of "JObj Plain
        [(''a'', JNull),
         (''b'', JObj (Array 2) [(''0'', JNull), (''1'', JObj Plain [])]),
         (''c'', JObj Plain [(''d'', JStr ''x''), (''e'', JNull)])]" sampleEnv "[]" Plain "[]"
      None True]
  by simp

section \<open>Nothing happens without a request field\<close>

lemma refund_idle:
  "\<not> populated (paymentField pwt ''refundRequest'') \<Longrightarrow> refund E pwt = ([], [])"
  by (simp add: refund_def)

lemma submitForSettlement_idle:
  "\<not> populated (paymentField pwt ''submitForSettlementRequest'')
   \<Longrightarrow> submitForSettlement E pwt = ([], [])"
  by (simp add: submitForSettlement_def)

lemma voidTransaction_idle:
  "\<not> populated (paymentField pwt ''voidRequest'') \<Longrightarrow> voidTransaction E pwt = ([], [])"
  by (simp add: voidTransaction_def)

lemma handleTransactionSaleRequest_idle:
  "\<not> populated (fieldOf p ''transactionSaleRequest'')
   \<Longrightarrow> handleTransactionSaleRequest E p = ([], [])"
  by (simp add: handleTransactionSaleRequest_def fieldOf_def split: option.splits)

lemma handleGetClientTokenRequest_idle:
  "\<not> populated (fieldOf p ''getClientTokenRequest'')
   \<Longrightarrow> handleGetClientTokenRequest E p = ([], Inr [])"
  by (simp add: handleGetClientTokenRequest_def populated_def split: option.splits)

lemma absent_not_populated: "x = None \<Longrightarrow> \<not> populated x"
  by (simp add: populated_def)

text \<open>
  C3. A handler whose triggering custom field is absent (the payment undefined, its
  \<^verbatim>\<open>custom\<close> undefined, or the field not set) returns the empty list of update actions
  and makes no gateway call. The same holds when the field is the empty string.
\<close>

theorem C3_no_request_no_action:
  "(paymentField pwt ''refundRequest'' = None \<longrightarrow> refund E pwt = ([], []))
   \<and> (paymentField pwt ''submitForSettlementRequest'' = None
        \<longrightarrow> submitForSettlement E pwt = ([], []))
   \<and> (paymentField pwt ''voidRequest'' = None \<longrightarrow> voidTransaction E pwt = ([], []))
   \<and> (fieldOf p ''transactionSaleRequest'' = None
        \<longrightarrow> handleTransactionSaleRequest E p = ([], []))
   \<and> (fieldOf p ''getClientTokenRequest'' = None
        \<longrightarrow> handleGetClientTokenRequest E p = ([], Inr []))
   \<and> (payment pwt = None \<longrightarrow>
         refund E pwt = ([], []) \<and> submitForSettlement E pwt = ([], [])
         \<and> voidTransaction E pwt = ([], []))
   \<and> handleTransactionSaleRequest E None = ([], [])
   \<and> handleGetClientTokenRequest E None = ([], Inr [])
   \<and> (\<not> populated (paymentField pwt ''refundRequest'') \<longrightarrow> refund E pwt = ([], []))
   \<and> (\<not> populated (paymentField pwt ''submitForSettlementRequest'')
        \<longrightarrow> submitForSettlement E pwt = ([], []))
   \<and> (\<not> populated (paymentField pwt ''voidRequest'') \<longrightarrow> voidTransaction E pwt = ([], []))
   \<and> (\<not> populated (fieldOf p ''transactionSaleRequest'')
        \<longrightarrow> handleTransactionSaleRequest E p = ([], []))
   \<and> (\<not> populated (fieldOf p ''getClientTokenRequest'')
        \<longrightarrow> handleGetClientTokenRequest E p = ([], Inr []))"
proof -
  have none: "payment pwt = None \<Longrightarrow> \<not> populated (paymentField pwt name)" for name
    by (simp add: paymentField_def populated_def)
  have sale: "handleTransactionSaleRequest E None = ([], [])"
    by (simp add: handleTransactionSaleRequest_def)
  have token: "handleGetClientTokenRequest E None = ([], Inr [])"
    by (simp add: handleGetClientTokenRequest_def fieldOf_def)
  show ?thesis
    using none sale token
    by (simp add: refund_idle submitForSettlement_idle voidTransaction_idle
        handleTransactionSaleRequest_idle handleGetClientTokenRequest_idle
        absent_not_populated)
qed

theorem C3_witness:
  "paymentField (sampleEvent [] [] None) ''refundRequest'' = None
   \<and> paymentField (sampleEvent [] [] None) ''submitForSettlementRequest'' = None
   \<and> paymentField (sampleEvent [] [] None) ''voidRequest'' = None
   \<and> fieldOf (Some (samplePayment [] [])) ''transactionSaleRequest'' = None
   \<and> fieldOf (Some (samplePayment [] [])) ''getClientTokenRequest'' = None
   \<and> payment \<lparr> payment = None, transaction = Some sampleCharge \<rparr> = None
   \<and> refund sampleEnv (sampleEvent [] [] None) = ([], [])
   \<and> submitForSettlement sampleEnv (sampleEvent [] [] None) = ([], [])
   \<and> voidTransaction sampleEnv (sampleEvent [] [] None) = ([], [])
   \<and> handleTransactionSaleRequest sampleEnv (Some (samplePayment [] [])) = ([], [])
   \<and> handleGetClientTokenRequest sampleEnv (Some (samplePayment [] [])) = ([], Inr [])
   \<and> refund sampleEnv \<lparr> payment = None, transaction = Some sampleCharge \<rparr> = ([], [])
   \<and> submitForSettlement sampleEnv \<lparr> payment = None, transaction = Some sampleCharge \<rparr>
       = ([], [])
   \<and> voidTransaction sampleEnv \<lparr> payment = None, transaction = Some sampleCharge \<rparr>
       = ([], [])"
proof -
  have a: "paymentField (sampleEvent [] [] None) name = None" for name
    by (simp add: paymentField_def sampleEvent_def samplePayment_def field_def)
  have b: "fieldOf (Some (samplePayment [] [])) name = None" for name
    by (simp add: fieldOf_def samplePayment_def field_def)
  show ?thesis
    using
      C3_no_request_no_action [of "sampleEvent [] [] None" sampleEnv
        "Some (samplePayment [] [])"]
      C3_no_request_no_action
        [of "\<lparr> payment = None, transaction = Some sampleCharge \<rparr>" sampleEnv
          "Some (samplePayment [] [])"]
    by (simp add: a b)
qed

section \<open>The customer controller's dispatch\<close>

text \<open>
  C10. \<^verbatim>\<open>customerController\<close> with action \<^verbatim>\<open>'Create'\<close> returns \<^verbatim>\<open>undefined\<close>, calls
  no gateway function and produces no update actions; with an action other than
  \<^verbatim>\<open>'Create'\<close> and \<^verbatim>\<open>'Update'\<close> it throws a \<^verbatim>\<open>CustomError\<close> with status code 500.
\<close>

theorem C10_customerController_dispatch:
  "customerController E ''Create'' resource = ([], Inr None)
   \<and> (action \<noteq> ''Create'' \<and> action \<noteq> ''Update''
        \<longrightarrow> (\<exists>msg. customerController E action resource = ([], Inl (CustomError 500 msg))))"
  by (simp add: customerController_def)

theorem C10_witness:
  "''Delete'' \<noteq> ''Create'' \<and> ''Delete'' \<noteq> ''Update''
   \<and> customerController sampleEnv ''Create'' (sampleResource []) = ([], Inr None)
   \<and> (\<exists>msg. customerController sampleEnv ''Delete'' (sampleResource [])
              = ([], Inl (CustomError 500 msg)))"
  using C10_customerController_dispatch [of sampleEnv "sampleResource []" "''Delete''"]
  by simp

section \<open>The request field is cleared\<close>

lemma handleError_clears: "clearing name tid \<in> set (handleError E name e tid)"
  by (simp add: handleError_def clearing_def)

lemma handlePaymentResponse_clears:
  "handlePaymentResponse E name r tid = (acts, r') \<Longrightarrow> clearing name tid \<in> set acts"
  by (auto simp: handlePaymentResponse_def handleResponse_def clearing_def Let_def)

lemma refund_clears:
  "populated (paymentField pwt ''refundRequest'')
   \<Longrightarrow> clearing ''refund'' (transactionId pwt) \<in> set (snd (refund E pwt))"
  by (auto simp: refund_def Let_def handleError_clears split: sum.splits prod.splits
      dest: handlePaymentResponse_clears)

lemma submitForSettlement_clears:
  "populated (paymentField pwt ''submitForSettlementRequest'')
   \<Longrightarrow> clearing ''submitForSettlement'' (transactionId pwt)
         \<in> set (snd (submitForSettlement E pwt))"
  by (auto simp: submitForSettlement_def Let_def handleError_clears
      split: sum.splits prod.splits dest: handlePaymentResponse_clears)

lemma voidTransaction_clears:
  "populated (paymentField pwt ''voidRequest'')
   \<Longrightarrow> clearing ''void'' (transactionId pwt) \<in> set (snd (voidTransaction E pwt))"
  by (auto simp: voidTransaction_def Let_def handleError_clears split: sum.splits prod.splits
      dest: handlePaymentResponse_clears)

lemma handleTransactionSaleRequest_clears:
  "populated (fieldOf p ''transactionSaleRequest'')
   \<Longrightarrow> clearing ''transactionSale'' None \<in> set (snd (handleTransactionSaleRequest E p))"
  by (auto simp: handleTransactionSaleRequest_def fieldOf_def populated_def Let_def
      handleError_clears split: sum.splits prod.splits option.splits
      dest: handlePaymentResponse_clears)

lemma handleGetClientTokenRequest_clears:
  "fieldOf p ''getClientTokenRequest'' = Some text \<Longrightarrow> text \<noteq> []
   \<Longrightarrow> jsonParse E text = Inr r
   \<Longrightarrow> \<exists>acts. snd (handleGetClientTokenRequest E p) = Inr acts
              \<and> clearing ''getClientToken'' None \<in> set acts"
  by (auto simp: handleGetClientTokenRequest_def Let_def handleError_clears
      handlePaymentResponse_clears [OF prod.collapse [symmetric]]
      split: sum.splits prod.splits option.splits)

lemma handleGetClientTokenRequest_throws:
  "fieldOf p ''getClientTokenRequest'' = Some text \<Longrightarrow> text \<noteq> []
   \<Longrightarrow> jsonParse E text = Inl msg
   \<Longrightarrow> handleGetClientTokenRequest E p = ([], Inl (JsError ''SyntaxError'' msg))"
  by (simp add: handleGetClientTokenRequest_def)

lemma token_request_rejected:
  "handleGetClientTokenRequest sampleEnv
     (Some (samplePayment [(''getClientTokenRequest'', ''abc'')] []))
   = ([], Inl (JsError ''SyntaxError'' ''Unexpected token in JSON at position 0''))"
  by (simp add: handleGetClientTokenRequest_def fieldOf_def field_def samplePayment_def
      sampleEnv_def sampleParse_def amountText_def)

text \<open>
  C1 as stated fails for \<^verbatim>\<open>handleGetClientTokenRequest\<close>: its request field is present
  and is not JSON, request parsing fails, and the handler throws instead of returning a
  list that clears \<^verbatim>\<open>getClientTokenRequest\<close>.
\<close>

theorem C1_counterexample:
  "populated (fieldOf (Some (samplePayment [(''getClientTokenRequest'', ''abc'')] []))
      ''getClientTokenRequest'')
   \<and> snd (handleGetClientTokenRequest sampleEnv
          (Some (samplePayment [(''getClientTokenRequest'', ''abc'')] [])))
      = Inl (JsError ''SyntaxError'' ''Unexpected token in JSON at position 0'')"
  by (simp add: token_request_rejected)
    (simp add: fieldOf_def field_def samplePayment_def populated_def)

text \<open>
  C1, amended. For \<^verbatim>\<open>refund\<close>, \<^verbatim>\<open>submitForSettlement\<close>, \<^verbatim>\<open>voidTransaction\<close> and
  \<^verbatim>\<open>handleTransactionSaleRequest\<close> with a populated request field, the returned list
  always holds the action that sets the originating request field to \<^verbatim>\<open>null\<close>, whether
  the operation succeeds, request parsing fails or the gateway call fails. For
  \<^verbatim>\<open>handleGetClientTokenRequest\<close> it does when the field is valid JSON, whether the
  gateway call succeeds or fails; when the field is not valid JSON the handler throws
  the \<^verbatim>\<open>SyntaxError\<close> of \<^verbatim>\<open>JSON.parse\<close>, makes no gateway call and returns no actions.
\<close>

theorem C1_request_field_cleared:
  "(populated (paymentField pwt ''refundRequest'')
      \<longrightarrow> clearing ''refund'' (transactionId pwt) \<in> set (snd (refund E pwt)))
   \<and> (populated (paymentField pwt ''submitForSettlementRequest'')
      \<longrightarrow> clearing ''submitForSettlement'' (transactionId pwt)
            \<in> set (snd (submitForSettlement E pwt)))
   \<and> (populated (paymentField pwt ''voidRequest'')
      \<longrightarrow> clearing ''void'' (transactionId pwt) \<in> set (snd (voidTransaction E pwt)))
   \<and> (populated (fieldOf p ''transactionSaleRequest'')
      \<longrightarrow> clearing ''transactionSale'' None \<in> set (snd (handleTransactionSaleRequest E p)))
   \<and> (fieldOf q ''getClientTokenRequest'' = Some raw \<and> raw \<noteq> []
       \<and> jsonParse E raw = Inr r
      \<longrightarrow> (\<exists>acts. snd (handleGetClientTokenRequest E q) = Inr acts
                  \<and> clearing ''getClientToken'' None \<in> set acts))
   \<and> (fieldOf q' ''getClientTokenRequest'' = Some raw' \<and> raw' \<noteq> []
       \<and> jsonParse E raw' = Inl msg
      \<longrightarrow> handleGetClientTokenRequest E q' = ([], Inl (JsError ''SyntaxError'' msg)))"
  using refund_clears [of pwt E] submitForSettlement_clears [of pwt E]
    voidTransaction_clears [of pwt E] handleTransactionSaleRequest_clears [of p E]
    handleGetClientTokenRequest_clears [of q raw E r]
    handleGetClientTokenRequest_throws [of q' raw' E msg]
  by blast

lemma sample_fields:
  "paymentField (sampleEvent fs txs tx) name = map_of fs name"
  "fieldOf (Some (samplePayment fs txs)) name = map_of fs name"
  "field (custom (samplePayment fs txs)) name = map_of fs name"
  "customerField (sampleCustomer fs) name = map_of fs name"
  "transactionId (sampleEvent fs txs tx) = map_option id_tx tx"
  by (simp_all add: paymentField_def fieldOf_def field_def sampleEvent_def samplePayment_def
      customerField_def sampleCustomer_def transactionId_def)

lemma sample_parse:
  "jsonParse sampleEnv ''{}'' = Inr (JObj Plain [])"
  "jsonParse sampleEnv ''abc'' = Inl ''Unexpected token in JSON at position 0''"
  "jsonParse rejectingEnv ''{}'' = Inr (JObj Plain [])"
  "jsonParse rejectingEnv ''abc'' = Inl ''Unexpected token in JSON at position 0''"
  by (simp_all add: sampleEnv_def rejectingEnv_def sampleParse_def amountText_def)

theorem C1_witness:
  "populated (paymentField
      (sampleEvent [(''refundRequest'', ''abc''), (''submitForSettlementRequest'', ''abc''),
                    (''voidRequest'', ''abc'')] [] (Some sampleCharge)) ''refundRequest'')
   \<and> SetField ''setTransactionCustomField'' (Some ''t-2'') ''refundRequest'' JNull
       \<in> set (snd (refund sampleEnv
            (sampleEvent [(''refundRequest'', ''abc''), (''submitForSettlementRequest'', ''abc''),
                          (''voidRequest'', ''abc'')] [] (Some sampleCharge))))
   \<and> SetField ''setTransactionCustomField'' (Some ''t-2'') ''submitForSettlementRequest'' JNull
       \<in> set (snd (submitForSettlement sampleEnv
            (sampleEvent [(''refundRequest'', ''abc''), (''submitForSettlementRequest'', ''abc''),
                          (''voidRequest'', ''abc'')] [] (Some sampleCharge))))
   \<and> SetField ''setTransactionCustomField'' (Some ''t-2'') ''voidRequest'' JNull
       \<in> set (snd (voidTransaction sampleEnv
            (sampleEvent [(''refundRequest'', ''abc''), (''submitForSettlementRequest'', ''abc''),
                          (''voidRequest'', ''abc'')] [] (Some sampleCharge))))
   \<and> SetField ''setCustomField'' None ''transactionSaleRequest'' JNull
       \<in> set (snd (handleTransactionSaleRequest sampleEnv
            (Some (samplePayment [(''transactionSaleRequest'', ''abc'')] []))))
   \<and> (\<exists>acts. snd (handleGetClientTokenRequest sampleEnv
                     (Some (samplePayment [(''getClientTokenRequest'', ''{}'')] []))) = Inr acts
          \<and> SetField ''setCustomField'' None ''getClientTokenRequest'' JNull \<in> set acts)
   \<and> handleGetClientTokenRequest sampleEnv
         (Some (samplePayment [(''getClientTokenRequest'', ''abc'')] []))
       = ([], Inl (JsError ''SyntaxError'' ''Unexpected token in JSON at position 0''))"
  using C1_request_field_cleared
    [of "sampleEvent [(''refundRequest'', ''abc''), (''submitForSettlementRequest'', ''abc''),
                      (''voidRequest'', ''abc'')] [] (Some sampleCharge)"
      sampleEnv
      "Some (samplePayment [(''transactionSaleRequest'', ''abc'')] [])"
      "Some (samplePayment [(''getClientTokenRequest'', ''{}'')] [])" "''{}''" "JObj Plain []"
      "Some (samplePayment [(''getClientTokenRequest'', ''abc'')] [])" "''abc''"
      "''Unexpected token in JSON at position 0''"]
  by (simp add: sample_fields sample_parse populated_def clearing_def setFieldAction_def
      sampleCharge_def)

section \<open>A failed operation returns exactly two actions\<close>

lemma handleError_failureActions: "handleError E name e tid = failureActions E name e tid"
  by (simp add: handleError_def failureActions_def)

lemma refund_fails:
  assumes "populated (paymentField pwt ''refundRequest'')"
  shows "parseRequest E pwt ''refundRequest'' ''Charge'' = Inl e
         \<Longrightarrow> refund E pwt = ([], failureActions E ''refund'' e (transactionId pwt))"
    and "parseRequest E pwt ''refundRequest'' ''Charge'' = Inr parsed
         \<Longrightarrow> gateway E []
               (Refund (getProp (snd (handleRequest E ''refund'' parsed)) ''transactionId'')
                  (optProp (snd (handleRequest E ''refund'' parsed)) ''amount'')) = Inl e
         \<Longrightarrow> snd (refund E pwt) = failureActions E ''refund'' e (transactionId pwt)"
  using assms
  by (simp_all add: refund_def handleError_failureActions Let_def case_prod_beta)

lemma submitForSettlement_fails:
  assumes "populated (paymentField pwt ''submitForSettlementRequest'')"
  shows "parseRequest E pwt ''submitForSettlementRequest'' ''Authorization'' = Inl e
         \<Longrightarrow> submitForSettlement E pwt
             = ([], failureActions E ''submitForSettlement'' e (transactionId pwt))"
    and "parseRequest E pwt ''submitForSettlementRequest'' ''Authorization'' = Inr parsed
         \<Longrightarrow> gateway E []
               (SubmitForSettlement
                  (getProp (snd (handleRequest E ''submitForSettlement'' parsed))
                     ''transactionId'')
                  (optProp (snd (handleRequest E ''submitForSettlement'' parsed)) ''amount''))
             = Inl e
         \<Longrightarrow> snd (submitForSettlement E pwt)
             = failureActions E ''submitForSettlement'' e (transactionId pwt)"
  using assms
  by (simp_all add: submitForSettlement_def handleError_failureActions Let_def case_prod_beta)

lemma voidTransaction_fails:
  assumes "populated (paymentField pwt ''voidRequest'')"
  shows "parseRequest E pwt ''voidRequest'' ''Authorization'' = Inl e
         \<Longrightarrow> voidTransaction E pwt = ([], failureActions E ''void'' e (transactionId pwt))"
    and "parseRequest E pwt ''voidRequest'' ''Authorization'' = Inr parsed
         \<Longrightarrow> gateway E []
               (VoidTransaction
                  (getProp (snd (handleRequest E ''void'' parsed)) ''transactionId'')) = Inl e
         \<Longrightarrow> snd (voidTransaction E pwt) = failureActions E ''void'' e (transactionId pwt)"
  using assms
  by (simp_all add: voidTransaction_def handleError_failureActions Let_def case_prod_beta)

lemma handleTransactionSaleRequest_fails:
  assumes "populated (field (custom pay) ''transactionSaleRequest'')"
  shows "parseTransactionSaleRequest E pay = Inl e
         \<Longrightarrow> handleTransactionSaleRequest E (Some pay)
             = ([], failureActions E ''transactionSale'' e None)"
    and "parseTransactionSaleRequest E pay = Inr parsed
         \<Longrightarrow> gateway E [] (TransactionSale (snd (handleRequest E ''transactionSale'' parsed)))
             = Inl e
         \<Longrightarrow> snd (handleTransactionSaleRequest E (Some pay))
             = failureActions E ''transactionSale'' e None"
  using assms
  by (simp_all add: handleTransactionSaleRequest_def handleError_failureActions Let_def
      case_prod_beta)

text \<open>
  C2. When request parsing or the gateway call throws inside \<^verbatim>\<open>refund\<close>,
  \<^verbatim>\<open>submitForSettlement\<close>, \<^verbatim>\<open>voidTransaction\<close> or \<^verbatim>\<open>handleTransactionSaleRequest\<close>,
  the handler returns exactly two update actions: the operation's response field set to
  the JSON text of \<^verbatim>\<open>{success: false, message}\<close> with the error's message, and the
  operation's request field set to \<^verbatim>\<open>null\<close>. No \<^verbatim>\<open>addTransaction\<close> and no
  payment-status action is in that list.
\<close>

theorem C2_failure_returns_two_actions:
  "(populated (paymentField pwt ''refundRequest'')
      \<and> parseRequest E pwt ''refundRequest'' ''Charge'' = Inl e
    \<longrightarrow> refund E pwt = ([], failureActions E ''refund'' e (transactionId pwt)))
   \<and> (populated (paymentField pwt ''submitForSettlementRequest'')
      \<and> parseRequest E pwt ''submitForSettlementRequest'' ''Authorization'' = Inl e
    \<longrightarrow> submitForSettlement E pwt
        = ([], failureActions E ''submitForSettlement'' e (transactionId pwt)))
   \<and> (populated (paymentField pwt ''voidRequest'')
      \<and> parseRequest E pwt ''voidRequest'' ''Authorization'' = Inl e
    \<longrightarrow> voidTransaction E pwt = ([], failureActions E ''void'' e (transactionId pwt)))
   \<and> (populated (field (custom pay) ''transactionSaleRequest'')
      \<and> parseTransactionSaleRequest E pay = Inl e'
    \<longrightarrow> handleTransactionSaleRequest E (Some pay)
        = ([], failureActions E ''transactionSale'' e' None))
   \<and> (populated (paymentField pwt2 ''refundRequest'')
      \<and> parseRequest E2 pwt2 ''refundRequest'' ''Charge'' = Inr parsed
      \<and> gateway E2 []
            (Refund (getProp (snd (handleRequest E2 ''refund'' parsed)) ''transactionId'')
               (optProp (snd (handleRequest E2 ''refund'' parsed)) ''amount'')) = Inl g
    \<longrightarrow> snd (refund E2 pwt2) = failureActions E2 ''refund'' g (transactionId pwt2))
   \<and> (populated (paymentField pwt2 ''submitForSettlementRequest'')
      \<and> parseRequest E2 pwt2 ''submitForSettlementRequest'' ''Authorization'' = Inr parsed
      \<and> gateway E2 []
            (SubmitForSettlement
               (getProp (snd (handleRequest E2 ''submitForSettlement'' parsed))
                  ''transactionId'')
               (optProp (snd (handleRequest E2 ''submitForSettlement'' parsed)) ''amount''))
          = Inl g
    \<longrightarrow> snd (submitForSettlement E2 pwt2)
        = failureActions E2 ''submitForSettlement'' g (transactionId pwt2))
   \<and> (populated (paymentField pwt2 ''voidRequest'')
      \<and> parseRequest E2 pwt2 ''voidRequest'' ''Authorization'' = Inr parsed
      \<and> gateway E2 []
            (VoidTransaction
               (getProp (snd (handleRequest E2 ''void'' parsed)) ''transactionId'')) = Inl g
    \<longrightarrow> snd (voidTransaction E2 pwt2) = failureActions E2 ''void'' g (transactionId pwt2))
   \<and> (populated (field (custom pay2) ''transactionSaleRequest'')
      \<and> parseTransactionSaleRequest E2 pay2 = Inr parsed2
      \<and> gateway E2 [] (TransactionSale (snd (handleRequest E2 ''transactionSale'' parsed2)))
          = Inl g
    \<longrightarrow> snd (handleTransactionSaleRequest E2 (Some pay2))
        = failureActions E2 ''transactionSale'' g None)
   \<and> length (failureActions E name e tid) = 2"
  using refund_fails(1) [of pwt E e] refund_fails(2) [of pwt2 E2 parsed g]
    submitForSettlement_fails(1) [of pwt E e]
    submitForSettlement_fails(2) [of pwt2 E2 parsed g]
    voidTransaction_fails(1) [of pwt E e] voidTransaction_fails(2) [of pwt2 E2 parsed g]
    handleTransactionSaleRequest_fails(1) [of pay E e']
    handleTransactionSaleRequest_fails(2) [of pay2 E2 parsed2 g]
  by (simp add: failureActions_def)

lemma sample_no_suitable:
  "map_of fs name = Some ''{}''
   \<Longrightarrow> parseRequest sampleEnv (sampleEvent fs [] None) name ty
       = Inl (CustomError 500 ''The payment has no suitable transaction'')"
  by (simp add: parseRequest_def requestJSON_def sampleEvent_def samplePayment_def field_def
      sample_parse readProp_def findSuitableTransactionId_def)

lemma sample_plain_request:
  "map_of fs name = Some ''abc''
   \<Longrightarrow> parseRequest rejectingEnv (sampleEvent fs [] None) name ty
       = Inr (JObj Plain [(''transactionId'', JStr ''abc'')])"
  by (simp add: parseRequest_def requestJSON_def sampleEvent_def samplePayment_def field_def
      sample_parse readProp_def)

lemma sample_sale_request:
  "parseTransactionSaleRequest rejectingEnv (samplePayment [(''transactionSaleRequest'', ''abc'')] [])
   = Inr (JObj Plain
       [(''amount'', JStr ''10''), (''merchantAccountId'', JUndefined),
        (''channel'', JStr ''commercetools''),
        (''options'', JObj Plain [(''submitForSettlement'', JBool True),
                                  (''storeInVaultOnSuccess'', JBool False)]),
        (''paymentMethodNonce'', JStr ''abc'')])"
  by (simp add: parseTransactionSaleRequest_def samplePayment_def field_def rejectingEnv_def
      sampleEnv_def sampleParse_def amountText_def storeInVaultOnSuccess_def optProp_def
      readProp_def spread_def envOrUndefined_def populated_def CHANNEL_COMMERCETOOLS_def
      Let_def)

lemma sample_sale_no_amount:
  "parseTransactionSaleRequest sampleEnv
     ((samplePayment [(''transactionSaleRequest'', ''abc'')] []) \<lparr> amountPlanned := None \<rparr>)
   = Inl (CustomError 500 ''amountPlanned is missing'')"
  by (simp add: parseTransactionSaleRequest_def samplePayment_def field_def)

lemma sample_rejects: "gateway rejectingEnv calls c = Inl (JsError ''Error'' ''Gateway unavailable'')"
  by (simp add: rejectingEnv_def rejectingGateway_def)

theorem C2_witness:
  "populated (paymentField (sampleEvent (threeRequests ''{}'') [] None) ''refundRequest'')
   \<and> populated (paymentField (sampleEvent (threeRequests ''{}'') [] None)
         ''submitForSettlementRequest'')
   \<and> populated (paymentField (sampleEvent (threeRequests ''{}'') [] None) ''voidRequest'')
   \<and> parseRequest sampleEnv (sampleEvent (threeRequests ''{}'') [] None)
         ''refundRequest'' ''Charge''
       = Inl (CustomError 500 ''The payment has no suitable transaction'')
   \<and> refund sampleEnv (sampleEvent (threeRequests ''{}'') [] None)
       = ([], failureActions sampleEnv ''refund''
                (CustomError 500 ''The payment has no suitable transaction'') None)
   \<and> submitForSettlement sampleEnv (sampleEvent (threeRequests ''{}'') [] None)
       = ([], failureActions sampleEnv ''submitForSettlement''
                (CustomError 500 ''The payment has no suitable transaction'') None)
   \<and> voidTransaction sampleEnv (sampleEvent (threeRequests ''{}'') [] None)
       = ([], failureActions sampleEnv ''void''
                (CustomError 500 ''The payment has no suitable transaction'') None)
   \<and> populated (field (custom ((samplePayment [(''transactionSaleRequest'', ''abc'')] [])
                                  \<lparr> amountPlanned := None \<rparr>)) ''transactionSaleRequest'')
   \<and> handleTransactionSaleRequest sampleEnv
         (Some ((samplePayment [(''transactionSaleRequest'', ''abc'')] [])
                  \<lparr> amountPlanned := None \<rparr>))
       = ([], failureActions sampleEnv ''transactionSale''
                (CustomError 500 ''amountPlanned is missing'') None)
   \<and> populated (paymentField (sampleEvent (threeRequests ''abc'') [] None) ''refundRequest'')
   \<and> populated (paymentField (sampleEvent (threeRequests ''abc'') [] None)
         ''submitForSettlementRequest'')
   \<and> populated (paymentField (sampleEvent (threeRequests ''abc'') [] None) ''voidRequest'')
   \<and> snd (refund rejectingEnv (sampleEvent (threeRequests ''abc'') [] None))
       = failureActions rejectingEnv ''refund'' (JsError ''Error'' ''Gateway unavailable'') None
   \<and> snd (submitForSettlement rejectingEnv (sampleEvent (threeRequests ''abc'') [] None))
       = failureActions rejectingEnv ''submitForSettlement''
           (JsError ''Error'' ''Gateway unavailable'') None
   \<and> snd (voidTransaction rejectingEnv (sampleEvent (threeRequests ''abc'') [] None))
       = failureActions rejectingEnv ''void'' (JsError ''Error'' ''Gateway unavailable'') None
   \<and> populated (field (custom (samplePayment [(''transactionSaleRequest'', ''abc'')] []))
         ''transactionSaleRequest'')
   \<and> snd (handleTransactionSaleRequest rejectingEnv
            (Some (samplePayment [(''transactionSaleRequest'', ''abc'')] [])))
       = failureActions rejectingEnv ''transactionSale''
           (JsError ''Error'' ''Gateway unavailable'') None"
proof -
  have fields: "map_of (threeRequests s) ''refundRequest'' = Some s"
    "map_of (threeRequests s) ''submitForSettlementRequest'' = Some s"
    "map_of (threeRequests s) ''voidRequest'' = Some s" for s
    by (simp_all add: threeRequests_def)
  have c: "populated (field (custom (samplePayment [(''transactionSaleRequest'', ''abc'')] []))
             ''transactionSaleRequest'')"
    and d: "populated (field (custom ((samplePayment [(''transactionSaleRequest'', ''abc'')] [])
                                  \<lparr> amountPlanned := None \<rparr>)) ''transactionSaleRequest'')"
    by (simp_all add: populated_def samplePayment_def field_def)
  show ?thesis
    using c d
      C2_failure_returns_two_actions
        [of "sampleEvent (threeRequests ''{}'') [] None" sampleEnv
          "CustomError 500 ''The payment has no suitable transaction''"
          "(samplePayment [(''transactionSaleRequest'', ''abc'')] []) \<lparr> amountPlanned := None \<rparr>"
          "CustomError 500 ''amountPlanned is missing''"
          "sampleEvent (threeRequests ''abc'') [] None" rejectingEnv
          "JObj Plain [(''transactionId'', JStr ''abc'')]"
          "JsError ''Error'' ''Gateway unavailable''"
          "samplePayment [(''transactionSaleRequest'', ''abc'')] []"
          "JObj Plain
             [(''amount'', JStr ''10''), (''merchantAccountId'', JUndefined),
              (''channel'', JStr ''commercetools''),
              (''options'', JObj Plain [(''submitForSettlement'', JBool True),
                                        (''storeInVaultOnSuccess'', JBool False)]),
              (''paymentMethodNonce'', JStr ''abc'')]"]
    by (simp add: sample_no_suitable sample_plain_request sample_sale_request
        sample_sale_no_amount sample_rejects sample_fields fields populated_def)
qed

section \<open>Where the custom-field actions go\<close>

lemma targeted_handleError: "list_all (targeted tid) (handleError E name e tid)"
  by (simp add: handleError_def targeted_def)

lemma targeted_handleRequest:
  "handleRequest E name r = (acts, r') \<Longrightarrow> list_all (targeted tid) acts"
  by (auto simp: handleRequest_def targeted_def Let_def)

lemma targeted_handlePaymentResponse:
  "handlePaymentResponse E name r tid = (acts, r') \<Longrightarrow> list_all (targeted tid) acts"
  by (auto simp: handlePaymentResponse_def handleResponse_def targeted_def Let_def)

lemma targeted_addTransactionAction:
  "addTransactionAction E ty r ap = Inr tx \<Longrightarrow> targeted tid tx"
  by (auto simp: addTransactionAction_def targeted_def split: sum.splits)

lemma targeted_updatePaymentFields:
  "updatePaymentFields E r = Inr acts \<Longrightarrow> list_all (targeted tid) acts"
  by (auto simp: updatePaymentFields_def targeted_def split: sum.splits)

lemma refund_targeted: "list_all (targeted (transactionId pwt)) (snd (refund E pwt))"
  by (auto simp: refund_def Let_def targeted_handleError
      split: sum.splits prod.splits
      dest: targeted_handleRequest targeted_handlePaymentResponse
        targeted_addTransactionAction targeted_updatePaymentFields)

lemma submitForSettlement_targeted:
  "list_all (targeted (transactionId pwt)) (snd (submitForSettlement E pwt))"
  by (auto simp: submitForSettlement_def Let_def targeted_handleError
      split: sum.splits prod.splits
      dest: targeted_handleRequest targeted_handlePaymentResponse
        targeted_addTransactionAction targeted_updatePaymentFields)

lemma voidTransaction_targeted:
  "list_all (targeted (transactionId pwt)) (snd (voidTransaction E pwt))"
  by (auto simp: voidTransaction_def Let_def targeted_handleError
      split: sum.splits prod.splits
      dest: targeted_handleRequest targeted_handlePaymentResponse
        targeted_addTransactionAction targeted_updatePaymentFields)

lemma targeted_eventTarget:
  "identified pwt \<Longrightarrow> targeted (transactionId pwt) a \<Longrightarrow> fieldTarget a = Some x
   \<Longrightarrow> x = eventTarget pwt"
  by (auto simp: targeted_def identified_def eventTarget_def transactionId_def
      setFieldAction_def populated_def split: option.splits)

text \<open>
  C9. In the list returned by \<^verbatim>\<open>refund\<close>, \<^verbatim>\<open>submitForSettlement\<close> or
  \<^verbatim>\<open>voidTransaction\<close>, every custom-field action (the response field, the cleared
  request field, the error response) is a \<^verbatim>\<open>setTransactionCustomField\<close> with the id of
  the event's transaction when the event has one, and a \<^verbatim>\<open>setCustomField\<close> without
  transaction id otherwise; this holds of every returned list, from the success path and
  from the error path alike. The transaction's id is taken to be non-empty, as the
  platform's ids are.
\<close>

theorem C9_field_actions_target:
  "identified pwt
   \<and> a \<in> set (snd (refund E pwt)) \<union> set (snd (submitForSettlement E pwt))
          \<union> set (snd (voidTransaction E pwt))
   \<and> fieldTarget a = Some x
   \<longrightarrow> x = eventTarget pwt"
  using refund_targeted [of pwt E] submitForSettlement_targeted [of pwt E]
    voidTransaction_targeted [of pwt E] targeted_eventTarget [of pwt a x]
  by (auto simp: list_all_iff)

theorem C9_witness:
  "identified (sampleEvent [(''refundRequest'', ''abc'')] [] (Some sampleCharge))
   \<and> SetField ''setTransactionCustomField'' (Some ''t-2'') ''refundRequest'' JNull
       \<in> set (snd (refund sampleEnv
                     (sampleEvent [(''refundRequest'', ''abc'')] [] (Some sampleCharge))))
   \<and> fieldTarget (SetField ''setTransactionCustomField'' (Some ''t-2'') ''refundRequest'' JNull)
       = Some (''setTransactionCustomField'', Some ''t-2'')
   \<and> (''setTransactionCustomField'', Some ''t-2'')
       = eventTarget (sampleEvent [(''refundRequest'', ''abc'')] [] (Some sampleCharge))"
proof -
  have a: "identified (sampleEvent [(''refundRequest'', ''abc'')] [] (Some sampleCharge))"
    by (simp add: identified_def sampleEvent_def sampleCharge_def)
  have "clearing ''refund''
          (transactionId (sampleEvent [(''refundRequest'', ''abc'')] [] (Some sampleCharge)))
        \<in> set (snd (refund sampleEnv
                      (sampleEvent [(''refundRequest'', ''abc'')] [] (Some sampleCharge))))"
    by (rule refund_clears) (simp add: sample_fields populated_def)
  then have b: "SetField ''setTransactionCustomField'' (Some ''t-2'') ''refundRequest'' JNull
       \<in> set (snd (refund sampleEnv
                     (sampleEvent [(''refundRequest'', ''abc'')] [] (Some sampleCharge))))"
    by (simp add: clearing_def sample_fields setFieldAction_def populated_def sampleCharge_def)
  show ?thesis
    using a b
      C9_field_actions_target
        [of "sampleEvent [(''refundRequest'', ''abc'')] [] (Some sampleCharge)"
          "SetField ''setTransactionCustomField'' (Some ''t-2'') ''refundRequest'' JNull"
          sampleEnv "(''setTransactionCustomField'', Some ''t-2'')"]
    by simp
qed

section \<open>Looking properties up after a write, a spread and a cleaning\<close>

lemma map_of_putProp: "map_of (putProp key x ps) k = (if k = key then Some x else map_of ps k)"
  by (induction ps) auto

lemma map_of_removeProps_keep:
  "map_of ps key = Some v \<Longrightarrow> v \<noteq> JNull \<Longrightarrow> \<not> isObject v
   \<Longrightarrow> map_of (removeProps ps) key = Some v"
proof (induction ps)
  case Nil
  then show ?case by simp
next
  case (Cons a ps)
  obtain k w where a: "a = (k, w)" by (cases a)
  show ?case
    using Cons by (auto simp: a Let_def split: if_splits)
qed




lemma optStr_plain [simp]: "optStr x \<noteq> JNull" "\<not> isObject (optStr x)"
  by (simp_all add: optStr_def split: option.splits)

lemma populated_Some: "populated (Some s) = (s \<noteq> [])"
  by (simp add: populated_def)

section \<open>The transaction id of refund, submitForSettlement and void\<close>



lemma requestJSON_payment:
  "paymentField pwt name = Some s \<Longrightarrow> requestJSON pwt name = Some s"
  by (simp add: requestJSON_def paymentField_def split: option.splits)


lemma parseRequest_plain:
  assumes "paymentField pwt name = Some s" "s \<noteq> []" "jsonParse E s = Inl msg"
  shows "parseRequest E pwt name ty = Inr (JObj Plain [(''transactionId'', JStr s)])"
  using assms
  by (simp add: parseRequest_def requestJSON_payment readProp_def)








section \<open>Request fields that are not JSON\<close>

lemma refund_plain:
  assumes "paymentField pwt ''refundRequest'' = Some s" "s \<noteq> []" "jsonParse E s = Inl msg"
  shows "fst (refund E pwt) = [Refund (JStr s) JUndefined]"
  using assms
  by (simp add: refund_def parseRequest_plain populated_Some case_prod_beta Let_def
      handleRequest_def typeofObject_def optProp_def)

lemma submitForSettlement_plain:
  assumes "paymentField pwt ''submitForSettlementRequest'' = Some s" "s \<noteq> []"
    "jsonParse E s = Inl msg"
  shows "fst (submitForSettlement E pwt) = [SubmitForSettlement (JStr s) JUndefined]"
  using assms
  by (simp add: submitForSettlement_def parseRequest_plain populated_Some case_prod_beta
      Let_def handleRequest_def typeofObject_def optProp_def)

lemma voidTransaction_plain:
  assumes "paymentField pwt ''voidRequest'' = Some s" "s \<noteq> []" "jsonParse E s = Inl msg"
  shows "fst (voidTransaction E pwt) = [VoidTransaction (JStr s)]"
  using assms
  by (simp add: voidTransaction_def parseRequest_plain populated_Some case_prod_beta Let_def
      handleRequest_def typeofObject_def)

lemma handleTransactionSaleRequest_plain:
  assumes "field (custom pay) ''transactionSaleRequest'' = Some s" "s \<noteq> []"
    "amountPlanned pay = Some ap" "jsonParse E s = Inl msg"
  shows "\<exists>sent. fst (handleTransactionSaleRequest E (Some pay)) = [TransactionSale sent]
          \<and> getProp sent ''paymentMethodNonce'' = JStr s"
  using assms
  by (simp add: handleTransactionSaleRequest_def populated_def case_prod_beta Let_def
      parseTransactionSaleRequest_def storeInVaultOnSuccess_def optProp_def readProp_def
      spread_def handleRequest_def typeofObject_def map_of_removeProps_keep map_of_putProp)

lemma parseVaultRequest_plain:
  assumes "customerField c ''vaultRequest'' = Some s" "jsonParse E s = Inl msg"
    "customerField c ''customerId'' = Some cid" "cid \<noteq> []"
  shows "parseVaultRequest E c =
     Inr (JObj Plain
            [(''paymentMethodNonce'', JStr s), (''customerId'', JStr cid),
             (''options'', JObj Plain [(''failOnDuplicatePaymentMethod'', JBool True)])])"
  using assms
  by (simp add: parseVaultRequest_def populated_def optStr_def)

lemma parseVaultRequest_plain_new_customer:
  assumes "customerField c ''vaultRequest'' = Some s" "jsonParse E s = Inl msg"
    "\<not> populated (customerField c ''customerId'')"
  shows "parseVaultRequest E c =
     mapCommercetoolsCustomerToBraintreeCustomerCreateRequest E c
       (jsonStringify E (JObj Plain [(''paymentMethodNonce'', JStr s)]))"
  using assms
  by (simp add: parseVaultRequest_def)

lemma updateVault_plain:
  assumes "customerField c ''vaultRequest'' = Some s" "s \<noteq> []" "jsonParse E s = Inl msg"
    "customerField c ''customerId'' = Some cid" "cid \<noteq> []"
  shows "fst (updateVault E c (calls, acts)) =
     calls @ [CreatePaymentMethod
                (JObj Plain
                   [(''paymentMethodNonce'', JStr s), (''customerId'', JStr cid),
                    (''options'',
                       JObj Plain [(''failOnDuplicatePaymentMethod'', JBool True)])])]"
  using assms parseVaultRequest_plain [OF assms(1,3,4,5)]
  by (simp add: updateVault_def populated_def Let_def)

lemma update_find_not_json:
  assumes "obj r = Some c" "customerField c ''findRequest'' = Some s" "s \<noteq> []"
    "jsonParse E s = Inl msg"
  shows "update E (Some r) =
     ([], Inl (CustomError 400
                 (''Internal server error on CustomerController: ''
                  @ errorStack E (JsError ''SyntaxError'' msg))))"
  using assms
  by (simp add: update_def updateFind_def)

text \<open>
  C4 as stated fails: \<^verbatim>\<open>findRequest\<close> is an operation triggered by a request custom
  field, and when its value is not JSON the customer update rejects it with a
  \<^verbatim>\<open>CustomError\<close> of status 400, without a gateway call.
\<close>

theorem C4_counterexample:
  "customerField (sampleCustomer [(''findRequest'', ''abc'')]) ''findRequest'' = Some ''abc''
   \<and> jsonParse sampleEnv ''abc'' = Inl ''Unexpected token in JSON at position 0''
   \<and> update sampleEnv (sampleResource [(''findRequest'', ''abc'')])
       = ([], Inl (CustomError 400
            (''Internal server error on CustomerController: ''
             @ ''Error: Unexpected token in JSON at position 0'')))"
  using update_find_not_json
    [of "\<lparr> obj = Some (sampleCustomer [(''findRequest'', ''abc'')]) \<rparr>"
      "sampleCustomer [(''findRequest'', ''abc'')]" "''abc''" sampleEnv
      "''Unexpected token in JSON at position 0''"]
  by (simp add: sample_fields sample_parse sampleResource_def)
    (simp add: sampleEnv_def)

text \<open>
  C4, amended. A request field that is not valid JSON is accepted as a plain string by
  these operations: for \<^verbatim>\<open>transactionSale\<close> (with an amount planned) it becomes the
  \<^verbatim>\<open>paymentMethodNonce\<close> of the gateway request; for \<^verbatim>\<open>vault\<close> with a customer id it
  becomes the \<^verbatim>\<open>paymentMethodNonce\<close> of the payment-method request, and without one it is
  wrapped as \<^verbatim>\<open>{paymentMethodNonce}\<close> and handed, serialised, to the customer mapping;
  for \<^verbatim>\<open>refund\<close>, \<^verbatim>\<open>submitForSettlement\<close> and \<^verbatim>\<open>void\<close> it becomes the
  \<^verbatim>\<open>transactionId\<close> of the gateway call. \<^verbatim>\<open>getClientTokenRequest\<close> and
  \<^verbatim>\<open>findRequest\<close> have no such fallback: a value that is not JSON makes the handler throw
  (the \<^verbatim>\<open>SyntaxError\<close>, and a \<^verbatim>\<open>CustomError\<close> of status 400) without a gateway call.
\<close>

theorem C4_plain_string_requests:
  "raw \<noteq> [] \<and> jsonParse E raw = Inl msg
   \<longrightarrow>
   (field (custom pay) ''transactionSaleRequest'' = Some raw \<and> amountPlanned pay = Some ap
      \<longrightarrow> (\<exists>sent. fst (handleTransactionSaleRequest E (Some pay)) = [TransactionSale sent]
                  \<and> getProp sent ''paymentMethodNonce'' = JStr raw))
   \<and> (customerField c ''vaultRequest'' = Some raw
       \<and> customerField c ''customerId'' = Some cid \<and> cid \<noteq> []
      \<longrightarrow> fst (updateVault E c (calls, acts)) =
            calls @ [CreatePaymentMethod
                       (JObj Plain
                          [(''paymentMethodNonce'', JStr raw), (''customerId'', JStr cid),
                           (''options'',
                              JObj Plain [(''failOnDuplicatePaymentMethod'', JBool True)])])])
   \<and> (customerField c2 ''vaultRequest'' = Some raw
       \<and> \<not> populated (customerField c2 ''customerId'')
      \<longrightarrow> parseVaultRequest E c2 =
            mapCommercetoolsCustomerToBraintreeCustomerCreateRequest E c2
              (jsonStringify E (JObj Plain [(''paymentMethodNonce'', JStr raw)])))
   \<and> (paymentField pwt ''refundRequest'' = Some raw
      \<longrightarrow> fst (refund E pwt) = [Refund (JStr raw) JUndefined])
   \<and> (paymentField pwt ''submitForSettlementRequest'' = Some raw
      \<longrightarrow> fst (submitForSettlement E pwt) = [SubmitForSettlement (JStr raw) JUndefined])
   \<and> (paymentField pwt ''voidRequest'' = Some raw
      \<longrightarrow> fst (voidTransaction E pwt) = [VoidTransaction (JStr raw)])
   \<and> (fieldOf q ''getClientTokenRequest'' = Some raw
      \<longrightarrow> handleGetClientTokenRequest E q = ([], Inl (JsError ''SyntaxError'' msg)))
   \<and> (obj r = Some c3 \<and> customerField c3 ''findRequest'' = Some raw
      \<longrightarrow> update E (Some r) =
            ([], Inl (CustomError 400
                        (''Internal server error on CustomerController: ''
                         @ errorStack E (JsError ''SyntaxError'' msg)))))"
  using handleTransactionSaleRequest_plain [of pay raw ap E msg]
    updateVault_plain [of c raw E msg cid calls acts]
    parseVaultRequest_plain_new_customer [of c2 raw E msg]
    refund_plain [of pwt raw E msg] submitForSettlement_plain [of pwt raw E msg]
    voidTransaction_plain [of pwt raw E msg]
    handleGetClientTokenRequest_throws [of q raw E msg]
    update_find_not_json [of r c3 raw E msg]
  by blast

theorem C4_witness:
  "''abc'' \<noteq> [] \<and> jsonParse sampleEnv ''abc'' = Inl ''Unexpected token in JSON at position 0''
   \<and> field (custom (samplePayment [(''transactionSaleRequest'', ''abc'')] []))
        ''transactionSaleRequest'' = Some ''abc''
   \<and> (\<exists>sent. fst (handleTransactionSaleRequest sampleEnv
                     (Some (samplePayment [(''transactionSaleRequest'', ''abc'')] [])))
              = [TransactionSale sent]
          \<and> getProp sent ''paymentMethodNonce'' = JStr ''abc'')
   \<and> fst (updateVault sampleEnv
            (sampleCustomer [(''vaultRequest'', ''abc''), (''customerId'', ''bc-1'')]) ([], []))
       = [CreatePaymentMethod
            (JObj Plain
               [(''paymentMethodNonce'', JStr ''abc''), (''customerId'', JStr ''bc-1''),
                (''options'', JObj Plain [(''failOnDuplicatePaymentMethod'', JBool True)])])]
   \<and> parseVaultRequest sampleEnv (sampleCustomer [(''vaultRequest'', ''abc'')])
       = mapCommercetoolsCustomerToBraintreeCustomerCreateRequest sampleEnv
           (sampleCustomer [(''vaultRequest'', ''abc'')])
           (jsonStringify sampleEnv (JObj Plain [(''paymentMethodNonce'', JStr ''abc'')]))
   \<and> fst (refund sampleEnv
            (sampleEvent [(''refundRequest'', ''abc''), (''submitForSettlementRequest'', ''abc''),
                          (''voidRequest'', ''abc'')] [] None))
       = [Refund (JStr ''abc'') JUndefined]
   \<and> fst (submitForSettlement sampleEnv
            (sampleEvent [(''refundRequest'', ''abc''), (''submitForSettlementRequest'', ''abc''),
                          (''voidRequest'', ''abc'')] [] None))
       = [SubmitForSettlement (JStr ''abc'') JUndefined]
   \<and> fst (voidTransaction sampleEnv
            (sampleEvent [(''refundRequest'', ''abc''), (''submitForSettlementRequest'', ''abc''),
                          (''voidRequest'', ''abc'')] [] None))
       = [VoidTransaction (JStr ''abc'')]
   \<and> handleGetClientTokenRequest sampleEnv
         (Some (samplePayment [(''getClientTokenRequest'', ''abc'')] []))
       = ([], Inl (JsError ''SyntaxError'' ''Unexpected token in JSON at position 0''))
   \<and> update sampleEnv (Some \<lparr> obj = Some (sampleCustomer [(''findRequest'', ''abc'')]) \<rparr>)
       = ([], Inl (CustomError 400
            (''Internal server error on CustomerController: ''
             @ errorStack sampleEnv
                 (JsError ''SyntaxError'' ''Unexpected token in JSON at position 0''))))"
  using C4_plain_string_requests
    [of "''abc''" sampleEnv "''Unexpected token in JSON at position 0''"
      "samplePayment [(''transactionSaleRequest'', ''abc'')] []"
      "\<lparr> centAmount = 1000, fractionDigits = 2, currencyCode = ''EUR'' \<rparr>"
      "sampleCustomer [(''vaultRequest'', ''abc''), (''customerId'', ''bc-1'')]" "''bc-1''"
      "[]" "[]"
      "sampleCustomer [(''vaultRequest'', ''abc'')]"
      "sampleEvent [(''refundRequest'', ''abc''), (''submitForSettlementRequest'', ''abc''),
                    (''voidRequest'', ''abc'')] [] None"
      "Some (samplePayment [(''getClientTokenRequest'', ''abc'')] [])"
      "\<lparr> obj = Some (sampleCustomer [(''findRequest'', ''abc'')]) \<rparr>"
      "sampleCustomer [(''findRequest'', ''abc'')]"]
  by (simp add: sample_fields sample_parse populated_def)
    (simp add: samplePayment_def)

section \<open>The amount of a sale\<close>








section \<open>Several customer requests in one update\<close>

lemma sample_vault_request:
  "parseVaultRequest rejectingEnv
     (sampleCustomer [(''findRequest'', ''{}''), (''vaultRequest'', ''abc''),
                      (''customerId'', ''bc-1'')])
   = Inr (JObj Plain
            [(''paymentMethodNonce'', JStr ''abc''), (''customerId'', JStr ''bc-1''),
             (''options'', JObj Plain [(''failOnDuplicatePaymentMethod'', JBool True)])])"
  by (rule parseVaultRequest_plain) (simp_all add: sample_fields sample_parse)

text \<open>
  C7 fails on the code: a customer carries \<^verbatim>\<open>findRequest\<close> and \<^verbatim>\<open>vaultRequest\<close>, and the
  gateway rejects both calls. Both requests are processed and the status code is 200, but
  the returned actions are those of the vault request alone: the \<^verbatim>\<open>catch\<close> of the vault
  block assigns \<^verbatim>\<open>updateActions = handleError('vault', e)\<close> and so drops the two actions
  that the find block had produced, where the success path concatenates.
\<close>

theorem C7_failure_drops_earlier_actions:
  "update rejectingEnv
     (sampleResource [(''findRequest'', ''{}''), (''vaultRequest'', ''abc''),
                      (''customerId'', ''bc-1'')])
   = ([FindCustomer (JStr ''bc-1''),
       CreatePaymentMethod
         (JObj Plain
            [(''paymentMethodNonce'', JStr ''abc''), (''customerId'', JStr ''bc-1''),
             (''options'', JObj Plain [(''failOnDuplicatePaymentMethod'', JBool True)])])],
      Inr (Some \<lparr> statusCode = 200,
                  actions = handleError rejectingEnv ''vault''
                              (JsError ''Error'' ''Gateway unavailable'') None \<rparr>))
   \<and> handleError rejectingEnv ''vault'' (JsError ''Error'' ''Gateway unavailable'') None
       \<noteq> handleError rejectingEnv ''find'' (JsError ''Error'' ''Gateway unavailable'') None
          @ handleError rejectingEnv ''vault'' (JsError ''Error'' ''Gateway unavailable'') None
   \<and> length (handleError rejectingEnv ''vault'' (JsError ''Error'' ''Gateway unavailable'') None)
       = 2"
  by (simp add: update_def sampleResource_def updateFind_def updateCreate_def updateVault_def
      sample_fields sample_parse sample_rejects sample_vault_request optProp_def populated_def
      Let_def)
    (simp add: handleError_def)

end
